theory Spec2Isabelle
  imports Complex_Main "HOL-Library.Char_ord" "HOL-Library.List_Lexorder"
    "HOL-Library.Product_Lexorder"
begin

section \<open>Payloads and the Python operations applied to them\<close>

text \<open>
  The payload handed to \<open>RainfallDataProcessor\<close> is whatever \<open>response.json()\<close>
  returned: an arbitrary JSON value. A JSON object is an association list that is read
  with \<open>map_of\<close>; numbers are real numbers (the difference between Python's \<open>int\<close> and
  \<open>float\<close> and the rounding of floats are not modelled).
\<close>

datatype json =
    JNull
  | JBool bool
  | JNum real
  | JStr string
  | JArr "json list"
  | JObj "(string \<times> json) list"

datatype py_error = AttributeError | TypeError | KeyError | ValueError

definition and_then :: "'e + 'a \<Rightarrow> ('a \<Rightarrow> 'e + 'b) \<Rightarrow> 'e + 'b" where
  "and_then m f = (case m of Inl e \<Rightarrow> Inl e | Inr x \<Rightarrow> f x)"

text \<open>A loop that builds a list and stops at the first exception.\<close>

fun traverse :: "('a \<Rightarrow> 'e + 'b) \<Rightarrow> 'a list \<Rightarrow> 'e + 'b list" where
  "traverse f [] = Inr []"
| "traverse f (x # xs) =
     (case f x of
        Inl e \<Rightarrow> Inl e
      | Inr y \<Rightarrow> (case traverse f xs of Inl e \<Rightarrow> Inl e | Inr ys \<Rightarrow> Inr (y # ys)))"

text \<open>\<open>not x\<close> is \<open>\<not> truthy x\<close>.\<close>

fun truthy :: "json \<Rightarrow> bool" where
  "truthy JNull = False"
| "truthy (JBool b) = b"
| "truthy (JNum x) = (x \<noteq> 0)"
| "truthy (JStr s) = (s \<noteq> [])"
| "truthy (JArr xs) = (xs \<noteq> [])"
| "truthy (JObj kvs) = (kvs \<noteq> [])"

fun is_substring :: "string \<Rightarrow> string \<Rightarrow> bool" where
  "is_substring k [] = (k = [])"
| "is_substring k (c # s) = (take (length k) (c # s) = k \<or> is_substring k s)"

text \<open>\<open>k in x\<close> for a string \<open>k\<close>: a key of a dict, an element of a list, a substring of
  a string; anything else is not iterable.\<close>

fun py_contains :: "string \<Rightarrow> json \<Rightarrow> py_error + bool" where
  "py_contains k (JObj kvs) = Inr (map_of kvs k \<noteq> None)"
| "py_contains k (JArr xs) = Inr (JStr k \<in> set xs)"
| "py_contains k (JStr s) = Inr (is_substring k s)"
| "py_contains k _ = Inl TypeError"

text \<open>\<open>x[k]\<close> for a string \<open>k\<close>: only a dict can be indexed by a string.\<close>

fun py_subscript :: "json \<Rightarrow> string \<Rightarrow> py_error + json" where
  "py_subscript (JObj kvs) k = (case map_of kvs k of None \<Rightarrow> Inl KeyError | Some v \<Rightarrow> Inr v)"
| "py_subscript _ k = Inl TypeError"

text \<open>\<open>d.get(k, default)\<close> on the items of a dict, and on an arbitrary value (only a
  dict has the method).\<close>

definition py_get :: "(string \<times> json) list \<Rightarrow> string \<Rightarrow> json \<Rightarrow> json" where
  "py_get d k dflt = (case map_of d k of None \<Rightarrow> dflt | Some v \<Rightarrow> v)"

fun dict_get :: "json \<Rightarrow> string \<Rightarrow> json \<Rightarrow> py_error + json" where
  "dict_get (JObj kvs) k dflt = Inr (py_get kvs k dflt)"
| "dict_get _ k dflt = Inl AttributeError"

fun py_len :: "json \<Rightarrow> py_error + nat" where
  "py_len (JArr xs) = Inr (length xs)"
| "py_len (JStr s) = Inr (length s)"
| "py_len (JObj kvs) = Inr (length kvs)"
| "py_len _ = Inl TypeError"

text \<open>\<open>x[0]\<close>, evaluated only for the debugging print of the first station: the keys of
  a JSON object are strings, so a non-empty dict has no key \<open>0\<close>.\<close>

fun py_item0 :: "json \<Rightarrow> py_error + json" where
  "py_item0 (JArr (x # xs)) = Inr x"
| "py_item0 (JStr (c # s)) = Inr (JStr [c])"
| "py_item0 (JArr []) = Inl KeyError"
| "py_item0 (JStr []) = Inl KeyError"
| "py_item0 (JObj kvs) = Inl KeyError"
| "py_item0 _ = Inl TypeError"

text \<open>\<open>for x in xs\<close>: the elements of a list, the characters of a string, the keys of a
  dict.\<close>

fun py_iter :: "json \<Rightarrow> py_error + json list" where
  "py_iter (JArr xs) = Inr xs"
| "py_iter (JStr s) = Inr (map (\<lambda>c. JStr [c]) s)"
| "py_iter (JObj kvs) = Inr (map (\<lambda>kv. JStr (fst kv)) kvs)"
| "py_iter _ = Inl TypeError"

text \<open>A dict key must be hashable; \<open>True\<close> and \<open>1\<close> (\<open>False\<close> and \<open>0\<close>) are the same key.\<close>

fun py_key :: "json \<Rightarrow> py_error + json" where
  "py_key (JArr xs) = Inl TypeError"
| "py_key (JObj kvs) = Inl TypeError"
| "py_key (JBool b) = Inr (JNum (if b then 1 else 0))"
| "py_key v = Inr v"

text \<open>\<open>str(v)\<close> inside an f-string: a string is inserted as it is; for every other value
  the text is the library's, taken as the parameter \<open>fmt\<close>.\<close>

fun py_str :: "(json \<Rightarrow> string) \<Rightarrow> json \<Rightarrow> string" where
  "py_str fmt (JStr s) = s"
| "py_str fmt v = fmt v"

section \<open>Timestamps\<close>

text \<open>
  A parsed timestamp is read at face value through its calendar fields. In a datetime
  column, \<open>None\<close> of type \<open>datetime option\<close> is pandas' \<open>NaT\<close>.
\<close>

record datetime =
  dt_year :: int
  dt_month :: nat
  dt_day :: nat
  dt_hour :: nat
  dt_minute :: nat
  dt_second :: nat

text \<open>
  What \<open>pd.to_datetime\<close> returns: \<open>None\<close>, \<open>NaT\<close>, or a \<open>Timestamp\<close> with its calendar
  fields and its offset from UTC in minutes (\<open>None\<close> for a timestamp without time zone).
\<close>

datatype tsval = PyNone | NaT | Timestamp datetime "int option"

text \<open>
  \<open>pd.to_datetime(v)\<close>. The source passes the empty string when a bucket has neither
  \<open>timestamp\<close> nor \<open>time\<close>, and pandas converts the empty string to \<open>NaT\<close>; it returns
  \<open>None\<close> for \<open>None\<close>. Every other conversion is the library's, taken as the parameter
  \<open>conv\<close> (\<open>Inl\<close> when pandas raises, as it does for a string it cannot parse).
\<close>

definition to_datetime :: "(json \<Rightarrow> py_error + tsval) \<Rightarrow> json \<Rightarrow> py_error + tsval" where
  "to_datetime conv v =
     (if v = JStr [] then Inr NaT else if v = JNull then Inr PyNone else conv v)"

text \<open>
  The column \<open>timestamp\<close> of \<open>pd.DataFrame(processed_data)\<close>. pandas makes it a datetime
  column when the timestamps in it all have the same time zone (all none, or all the same
  offset), \<open>None\<close> and \<open>NaT\<close> aside, and when it holds no timestamp but at least one
  \<open>NaT\<close>; in a datetime column \<open>None\<close> becomes \<open>NaT\<close>. Otherwise the column keeps the
  Python objects, and the accessor \<open>.dt\<close> raises \<open>AttributeError\<close> on it.
\<close>

fun timestamp_zones :: "tsval list \<Rightarrow> int option list" where
  "timestamp_zones [] = []"
| "timestamp_zones (Timestamp d z # ts) = z # timestamp_zones ts"
| "timestamp_zones (t # ts) = timestamp_zones ts"

definition datetime_column :: "tsval list \<Rightarrow> bool" where
  "datetime_column ts =
     (case timestamp_zones ts of
        [] \<Rightarrow> NaT \<in> set ts
      | z # zs \<Rightarrow> list_all (\<lambda>y. y = z) zs)"

fun column_value :: "tsval \<Rightarrow> datetime option" where
  "column_value (Timestamp d z) = Some d"
| "column_value t = None"

section \<open>RainfallDataProcessor\<close>

text \<open>The values of the dict \<open>self.stations_info\<close>, and the dict itself.\<close>

record station_info =
  info_name :: json
  info_latitude :: json
  info_longitude :: json

type_synonym stations_info = "json \<Rightarrow> station_info option"

text \<open>
  A row of a table with the columns of the table that \<open>process_readings\<close> builds. The
  processor copies JSON values into the row as they are. \<open>processed_row\<close> is a dict of
  \<open>processed_data\<close>, before the columns \<open>hour\<close> and \<open>date\<close> exist; \<open>reading_row\<close> is a
  row of the DataFrame that \<open>process_readings\<close> returns.
\<close>

record ('s, 'n, 't, 'h, 'd) row =
  timestamp :: 't
  station_id :: 's
  station_name :: 's
  latitude :: 'n
  longitude :: 'n
  rainfall_mm :: 'n
  hour :: 'h
  date :: 'd

type_synonym processed_row = "(json, json, tsval, unit, unit) row"

type_synonym reading_row = "(json, json, datetime option, nat option, (int \<times> nat \<times> nat) option) row"

text \<open>
  The common opening of \<open>process_stations\<close> and \<open>process_readings\<close>: the guard on the
  response, \<open>api_response['data'].get(name, [])\<close>, the \<open>len\<close> of the debugging print and
  the guard on the collection. \<open>Inr None\<close> is the early return of an empty DataFrame.
\<close>

definition data_section :: "string \<Rightarrow> json \<Rightarrow> py_error + json option" where
  "data_section name api_response =
     (if \<not> truthy api_response then Inr None
      else and_then (py_contains ''data'' api_response) (\<lambda>present.
        if \<not> present then Inr None
        else and_then (py_subscript api_response ''data'') (\<lambda>d.
          and_then (dict_get d name (JArr [])) (\<lambda>coll.
            and_then (py_len coll) (\<lambda>n.
              if \<not> truthy coll then Inr None else Inr (Some coll))))))"

definition station_label :: "(json \<Rightarrow> string) \<Rightarrow> json \<Rightarrow> json" where
  "station_label fmt sid = JStr (''Station_'' @ py_str fmt sid)"

text \<open>The body of the loop of \<open>process_stations\<close> (lines 52 to 68).\<close>

definition store_station :: "(json \<Rightarrow> string) \<Rightarrow> stations_info \<Rightarrow> json \<Rightarrow> py_error + stations_info" where
  "store_station fmt info station =
     (case station of
        JObj s \<Rightarrow>
          (let station_id = py_get s ''id'' (py_get s ''stationId'' (JStr ''unknown''));
               location_info =
                 (case map_of s ''labelLocation'' of
                    Some v \<Rightarrow> v
                  | None \<Rightarrow>
                      (case map_of s ''location'' of
                         Some v \<Rightarrow> v
                       | None \<Rightarrow>
                           (case map_of s ''coordinates'' of
                              Some v \<Rightarrow> v
                            | None \<Rightarrow> JObj [])));
               name = py_get s ''name'' (station_label fmt station_id)
           in and_then (dict_get location_info ''lat'' (JNum 0)) (\<lambda>lat.
              and_then (dict_get location_info ''latitude'' lat) (\<lambda>latitude.
              and_then (dict_get location_info ''lon'' (JNum 0)) (\<lambda>lon.
              and_then (dict_get location_info ''lng'' lon) (\<lambda>lng.
              and_then (dict_get location_info ''longitude'' lng) (\<lambda>longitude.
              and_then (py_key station_id) (\<lambda>k.
                Inr (info(k \<mapsto>
                  \<lparr>info_name = name, info_latitude = latitude, info_longitude = longitude\<rparr>)))))))))
      | _ \<Rightarrow> Inl AttributeError)"

text \<open>The loop: an exception leaves the entries stored so far in \<open>self.stations_info\<close>.\<close>

fun stations_loop :: "(json \<Rightarrow> string) \<Rightarrow> stations_info \<Rightarrow> json list \<Rightarrow> py_error option \<times> stations_info" where
  "stations_loop fmt info [] = (None, info)"
| "stations_loop fmt info (station # rest) =
     (case store_station fmt info station of
        Inl e \<Rightarrow> (Some e, info)
      | Inr info' \<Rightarrow> stations_loop fmt info' rest)"

text \<open>
  \<open>process_stations\<close> returns \<open>pd.DataFrame(stations)\<close>, modelled by the list of station
  entries it is built from (\<open>[]\<close> for the empty DataFrame of the early returns), together
  with the new value of \<open>self.stations_info\<close>.
\<close>

definition process_stations :: "(json \<Rightarrow> string) \<Rightarrow> stations_info \<Rightarrow> json \<Rightarrow> (py_error + json list) \<times> stations_info" where
  "process_stations fmt info api_response =
     (case data_section ''stations'' api_response of
        Inl e \<Rightarrow> (Inl e, info)
      | Inr None \<Rightarrow> (Inr [], info)
      | Inr (Some stations) \<Rightarrow>
          (case py_item0 stations of
             Inl e \<Rightarrow> (Inl e, info)
           | Inr first \<Rightarrow>
               (case py_iter stations of
                  Inl e \<Rightarrow> (Inl e, info)
                | Inr entries \<Rightarrow>
                    (case stations_loop fmt info entries of
                       (Some e, info') \<Rightarrow> (Inl e, info')
                     | (None, info') \<Rightarrow> (Inr entries, info')))))"

text \<open>The body of the inner loop of \<open>process_readings\<close> (lines 93 to 107).\<close>

definition point_row :: "(json \<Rightarrow> py_error + tsval) \<Rightarrow> (json \<Rightarrow> string) \<Rightarrow> stations_info \<Rightarrow> json \<Rightarrow> json \<Rightarrow> py_error + processed_row" where
  "point_row conv fmt info ts data_point =
     (case data_point of
        JObj p \<Rightarrow>
          (let station_id =
                 py_get p ''stationId'' (py_get p ''station_id'' (py_get p ''id'' (JStr ''unknown'')));
               rainfall_value = py_get p ''value'' (py_get p ''rainfall'' (JNum 0))
           in and_then (py_key station_id) (\<lambda>k.
              and_then (to_datetime conv ts) (\<lambda>t.
                Inr \<lparr>timestamp = t,
                     station_id = station_id,
                     station_name =
                       (case info k of
                          None \<Rightarrow> station_label fmt station_id
                        | Some si \<Rightarrow> info_name si),
                     latitude = (case info k of None \<Rightarrow> JNum 0 | Some si \<Rightarrow> info_latitude si),
                     longitude = (case info k of None \<Rightarrow> JNum 0 | Some si \<Rightarrow> info_longitude si),
                     rainfall_mm = rainfall_value,
                     hour = (),
                     date = ()\<rparr>)))
      | _ \<Rightarrow> Inl AttributeError)"

text \<open>The body of the outer loop (lines 87 to 107): the rows of one time bucket.\<close>

definition bucket_rows :: "(json \<Rightarrow> py_error + tsval) \<Rightarrow> (json \<Rightarrow> string) \<Rightarrow> stations_info \<Rightarrow> json \<Rightarrow> py_error + processed_row list" where
  "bucket_rows conv fmt info reading =
     (case reading of
        JObj r \<Rightarrow>
          (let ts = py_get r ''timestamp'' (py_get r ''time'' (JStr ''''));
               data_points = py_get r ''data'' (JArr [])
           in and_then (py_len data_points) (\<lambda>n.
              and_then (py_iter data_points) (\<lambda>points.
                traverse (point_row conv fmt info ts) points)))
      | _ \<Rightarrow> Inl AttributeError)"

text \<open>A row of the DataFrame, with the columns \<open>hour\<close> and \<open>date\<close> that lines 111 and 112
  take from the datetime column; both are missing where the timestamp is \<open>NaT\<close>.\<close>

definition with_hour_and_date :: "processed_row \<Rightarrow> reading_row" where
  "with_hour_and_date r =
     (let t = column_value (timestamp r)
      in \<lparr>timestamp = t,
          station_id = station_id r,
          station_name = station_name r,
          latitude = latitude r,
          longitude = longitude r,
          rainfall_mm = rainfall_mm r,
          hour = map_option dt_hour t,
          date = map_option (\<lambda>d. (dt_year d, dt_month d, dt_day d)) t\<rparr>)"

text \<open>
  \<open>process_readings\<close> only reads \<open>self.stations_info\<close>; its DataFrame is the list of its
  rows, in the order of the payload. After the loops (lines 109 to 112) a DataFrame that is
  not empty gets its columns \<open>hour\<close> and \<open>date\<close> through \<open>df['timestamp'].dt\<close>, which
  raises when the column is not a datetime column.
\<close>

definition process_readings :: "(json \<Rightarrow> py_error + tsval) \<Rightarrow> (json \<Rightarrow> string) \<Rightarrow> stations_info \<Rightarrow> json \<Rightarrow> py_error + reading_row list" where
  "process_readings conv fmt info api_response =
     (case data_section ''readings'' api_response of
        Inl e \<Rightarrow> Inl e
      | Inr None \<Rightarrow> Inr []
      | Inr (Some readings) \<Rightarrow>
          and_then (py_iter readings) (\<lambda>buckets.
            and_then (traverse (bucket_rows conv fmt info) buckets) (\<lambda>rows.
              (let processed_data = concat rows
               in if processed_data = [] then Inr []
                  else if datetime_column (map timestamp processed_data)
                  then Inr (map with_hour_and_date processed_data)
                  else Inl AttributeError))))"

section \<open>The payload as the specification reads it\<close>

text \<open>
  The time buckets of a payload, the timestamp and the per-station values of a bucket, and
  the two counts that the specification compares with the number of rows of the table.
\<close>

definition payload_readings :: "json \<Rightarrow> json list" where
  "payload_readings api_response =
     (case api_response of
        JObj body \<Rightarrow>
          (case map_of body ''data'' of
             Some (JObj d) \<Rightarrow> (case map_of d ''readings'' of Some (JArr rs) \<Rightarrow> rs | _ \<Rightarrow> [])
           | _ \<Rightarrow> [])
      | _ \<Rightarrow> [])"

definition bucket_timestamp :: "json \<Rightarrow> json" where
  "bucket_timestamp reading =
     (case reading of
        JObj r \<Rightarrow> py_get r ''timestamp'' (py_get r ''time'' (JStr []))
      | _ \<Rightarrow> JStr [])"

definition bucket_points :: "json \<Rightarrow> json list" where
  "bucket_points reading =
     (case reading of
        JObj r \<Rightarrow> (case py_get r ''data'' (JArr []) of JArr ps \<Rightarrow> ps | _ \<Rightarrow> [])
      | _ \<Rightarrow> [])"

definition parsed :: "(json \<Rightarrow> py_error + tsval) \<Rightarrow> json \<Rightarrow> bool" where
  "parsed conv ts = (case to_datetime conv ts of Inr (Timestamp d z) \<Rightarrow> True | _ \<Rightarrow> False)"

definition converts :: "(json \<Rightarrow> py_error + tsval) \<Rightarrow> json \<Rightarrow> bool" where
  "converts conv ts = (case to_datetime conv ts of Inr t \<Rightarrow> True | Inl e \<Rightarrow> False)"

definition converted :: "(json \<Rightarrow> py_error + tsval) \<Rightarrow> json \<Rightarrow> tsval" where
  "converted conv ts = (case to_datetime conv ts of Inr t \<Rightarrow> t | Inl e \<Rightarrow> NaT)"

text \<open>The converted timestamp of each per-station value of the payload, in order.\<close>

definition timestamp_column :: "(json \<Rightarrow> py_error + tsval) \<Rightarrow> json \<Rightarrow> tsval list" where
  "timestamp_column conv api_response =
     concat (map (\<lambda>r. replicate (length (bucket_points r)) (converted conv (bucket_timestamp r)))
       (payload_readings api_response))"

definition value_count :: "json \<Rightarrow> nat" where
  "value_count api_response =
     sum_list (map (\<lambda>r. length (bucket_points r)) (payload_readings api_response))"

definition parsed_value_count :: "(json \<Rightarrow> py_error + tsval) \<Rightarrow> json \<Rightarrow> nat" where
  "parsed_value_count conv api_response =
     sum_list (map (\<lambda>r. if parsed conv (bucket_timestamp r) then length (bucket_points r) else 0)
       (payload_readings api_response))"

text \<open>
  A per-station value that the inner loop can process: an object whose station identifier
  can be a dict key. A bucket that the outer loop can process: an object whose \<open>data\<close> is
  a list of such values and whose timestamp, when there is a value to convert it for,
  pandas converts (to a timestamp, to \<open>NaT\<close> or to \<open>None\<close>). A payload that
  \<open>process_readings\<close> can process: its buckets are such buckets, and the converted
  timestamps of its values, when there are any, form a datetime column.
\<close>

definition well_formed_point :: "json \<Rightarrow> bool" where
  "well_formed_point data_point =
     (case data_point of
        JObj p \<Rightarrow>
          (case py_key (py_get p ''stationId'' (py_get p ''station_id''
                   (py_get p ''id'' (JStr ''unknown'')))) of
             Inr k \<Rightarrow> True
           | Inl e \<Rightarrow> False)
      | _ \<Rightarrow> False)"

definition well_formed_bucket :: "(json \<Rightarrow> py_error + tsval) \<Rightarrow> json \<Rightarrow> bool" where
  "well_formed_bucket conv reading =
     (case reading of
        JObj r \<Rightarrow>
          (case py_get r ''data'' (JArr []) of
             JArr ps \<Rightarrow>
               list_all well_formed_point ps \<and> (ps = [] \<or> converts conv (bucket_timestamp reading))
           | _ \<Rightarrow> False)
      | _ \<Rightarrow> False)"

definition well_formed_readings :: "(json \<Rightarrow> py_error + tsval) \<Rightarrow> json \<Rightarrow> bool" where
  "well_formed_readings conv api_response =
     (case api_response of
        JObj body \<Rightarrow>
          (case map_of body ''data'' of
             Some (JObj d) \<Rightarrow>
               (case map_of d ''readings'' of
                  Some (JArr rs) \<Rightarrow>
                    list_all (well_formed_bucket conv) rs
                    \<and> (timestamp_column conv api_response = []
                         \<or> datetime_column (timestamp_column conv api_response))
                | _ \<Rightarrow> False)
           | _ \<Rightarrow> False)
      | _ \<Rightarrow> False)"

text \<open>
  The station entries of a payload, the identifier and the location object that the loop of
  \<open>process_stations\<close> resolves for an entry, and the entries that the loop can process: an
  object whose location is an object and whose identifier can be a dict key.
\<close>

definition payload_stations :: "json \<Rightarrow> json list" where
  "payload_stations api_response =
     (case api_response of
        JObj body \<Rightarrow>
          (case map_of body ''data'' of
             Some (JObj d) \<Rightarrow> (case map_of d ''stations'' of Some (JArr ss) \<Rightarrow> ss | _ \<Rightarrow> [])
           | _ \<Rightarrow> [])
      | _ \<Rightarrow> [])"

definition station_identifier :: "json \<Rightarrow> json" where
  "station_identifier station =
     (case station of
        JObj s \<Rightarrow> py_get s ''id'' (py_get s ''stationId'' (JStr ''unknown''))
      | _ \<Rightarrow> JStr ''unknown'')"

definition station_location :: "json \<Rightarrow> json" where
  "station_location station =
     (case station of
        JObj s \<Rightarrow>
          py_get s ''labelLocation'' (py_get s ''location'' (py_get s ''coordinates'' (JObj [])))
      | _ \<Rightarrow> JObj [])"

definition well_formed_station :: "json \<Rightarrow> bool" where
  "well_formed_station station =
     (case station of
        JObj s \<Rightarrow>
          (case station_location station of
             JObj l \<Rightarrow> (case py_key (station_identifier station) of Inr k \<Rightarrow> True | Inl e \<Rightarrow> False)
           | _ \<Rightarrow> False)
      | _ \<Rightarrow> False)"

definition well_formed_stations :: "json \<Rightarrow> bool" where
  "well_formed_stations api_response =
     (case api_response of
        JObj body \<Rightarrow>
          (case map_of body ''data'' of
             Some (JObj d) \<Rightarrow>
               (case map_of d ''stations'' of
                  Some (JArr ss) \<Rightarrow> list_all well_formed_station ss
                | _ \<Rightarrow> False)
           | _ \<Rightarrow> False)
      | _ \<Rightarrow> False)"

text \<open>
  What the specification stores for a station entry and reads from a per-station value:
  the name of a station, or \<open>Station_\<close> and its identifier when it has none; its
  coordinates under any of their names, or 0; the station identifier of a value, or
  \<open>unknown\<close>; its rainfall, or 0. The station table after a payload holds these records,
  a later entry replacing an earlier one of the same identifier.
\<close>

definition entry_fields :: "json \<Rightarrow> (string \<times> json) list" where
  "entry_fields v = (case v of JObj kvs \<Rightarrow> kvs | _ \<Rightarrow> [])"




definition point_station :: "json \<Rightarrow> json" where
  "point_station data_point =
     py_get (entry_fields data_point) ''stationId''
       (py_get (entry_fields data_point) ''station_id''
          (py_get (entry_fields data_point) ''id'' (JStr ''unknown'')))"

definition point_rainfall :: "json \<Rightarrow> json" where
  "point_rainfall data_point =
     py_get (entry_fields data_point) ''value''
       (py_get (entry_fields data_point) ''rainfall'' (JNum 0))"


text \<open>
  A row is joined against a station table when its name and coordinates are those stored
  under the row's station identifier, or the defaults when nothing is stored under it.
\<close>

definition joined :: "(json \<Rightarrow> string) \<Rightarrow> stations_info \<Rightarrow> reading_row \<Rightarrow> bool" where
  "joined fmt info r =
     (case py_key (station_id r) of
        Inl e \<Rightarrow> False
      | Inr k \<Rightarrow>
          (case info k of
             None \<Rightarrow> station_name r = station_label fmt (station_id r) \<and> latitude r = JNum 0
                      \<and> longitude r = JNum 0
           | Some si \<Rightarrow> station_name r = info_name si \<and> latitude r = info_latitude si
                      \<and> longitude r = info_longitude si))"

section \<open>Example payloads\<close>

text \<open>
  The examples fix the two library parameters at the values they are applied to: pandas
  parses the ISO timestamps below and raises \<open>ValueError\<close> for \<open>not-a-date\<close>; Python
  prints \<open>None\<close>, \<open>True\<close> and \<open>False\<close> so. No example converts another timestamp or
  formats another value that is not a string.
\<close>

definition example_conv :: "json \<Rightarrow> py_error + tsval" where
  "example_conv v =
     (if v = JStr ''2024-01-15T10:00:00'' then
        Inr (Timestamp \<lparr>dt_year = 2024, dt_month = 1, dt_day = 15, dt_hour = 10, dt_minute = 0,
                          dt_second = 0\<rparr> None)
      else if v = JStr ''2024-01-15T11:05:00'' then
        Inr (Timestamp \<lparr>dt_year = 2024, dt_month = 1, dt_day = 15, dt_hour = 11, dt_minute = 5,
                          dt_second = 0\<rparr> None)
      else if v = JStr ''2024-01-15T11:05:00+08:00'' then
        Inr (Timestamp \<lparr>dt_year = 2024, dt_month = 1, dt_day = 15, dt_hour = 11, dt_minute = 5,
                          dt_second = 0\<rparr> (Some 480))
      else Inl ValueError)"

definition example_fmt :: "json \<Rightarrow> string" where
  "example_fmt v =
     (case v of JNull \<Rightarrow> ''None'' | JBool b \<Rightarrow> (if b then ''True'' else ''False'') | _ \<Rightarrow> [])"

text \<open>One bucket without \<open>timestamp\<close> or \<open>time\<close>, carrying one value.\<close>

definition payload_without_timestamp :: json where
  "payload_without_timestamp =
     JObj [(''data'', JObj [(''readings'', JArr [
       JObj [(''data'', JArr [JObj [(''stationId'', JStr ''S1''), (''value'', JNum 5)]])]])])]"

text \<open>Two buckets: one parsed, with two values; one without a timestamp, with one.\<close>

definition payload_two_buckets :: json where
  "payload_two_buckets =
     JObj [(''data'', JObj [
       (''stations'', JArr [
          JObj [(''id'', JStr ''S1''), (''name'', JStr ''Alpha''),
                (''labelLocation'', JObj [(''latitude'', JNum 1.3), (''longitude'', JNum 103.8)])],
          JObj [(''id'', JStr ''S2''), (''name'', JStr ''Beta''),
                (''labelLocation'', JObj [(''latitude'', JNum 1.35), (''longitude'', JNum 103.82)])]]),
       (''readings'', JArr [
          JObj [(''timestamp'', JStr ''2024-01-15T10:00:00''),
                (''data'', JArr [JObj [(''stationId'', JStr ''S1''), (''value'', JNum 0)],
                                 JObj [(''stationId'', JStr ''S2''), (''value'', JNum 5)]])],
          JObj [(''data'', JArr [JObj [(''stationId'', JStr ''S1''), (''value'', JNum 10)]])]])])]"

text \<open>Two buckets, one timestamp without time zone and one with the offset +08:00.\<close>

definition payload_mixed_offsets :: json where
  "payload_mixed_offsets =
     JObj [(''data'', JObj [(''readings'', JArr [
       JObj [(''timestamp'', JStr ''2024-01-15T10:00:00''),
             (''data'', JArr [JObj [(''stationId'', JStr ''S1''), (''value'', JNum 5)]])],
       JObj [(''timestamp'', JStr ''2024-01-15T11:05:00+08:00''),
             (''data'', JArr [JObj [(''stationId'', JStr ''S1''), (''value'', JNum 7)]])]])])]"




section \<open>Sequences of calls on one processor\<close>

text \<open>
  \<open>__init__\<close> sets \<open>self.stations_info = {}\<close>; \<open>process_stations\<close> is the only method that
  assigns to it and \<open>process_readings\<close> only reads it. \<open>stations_info_after\<close> is the value
  of the field after a sequence of calls on one instance.
\<close>

datatype call = ProcessStations json | ProcessReadings json

fun stations_info_after :: "(json \<Rightarrow> string) \<Rightarrow> stations_info \<Rightarrow> call list \<Rightarrow> stations_info" where
  "stations_info_after fmt info [] = info"
| "stations_info_after fmt info (ProcessStations p # calls) =
     stations_info_after fmt (snd (process_stations fmt info p)) calls"
| "stations_info_after fmt info (ProcessReadings p # calls) = stations_info_after fmt info calls"

text \<open>A later payload: no stations, one value for station \<open>S1\<close>.\<close>

definition payload_readings_only :: json where
  "payload_readings_only =
     JObj [(''data'', JObj [(''readings'', JArr [
       JObj [(''timestamp'', JStr ''2024-01-15T11:05:00''),
             (''data'', JArr [JObj [(''stationId'', JStr ''S1''), (''value'', JNum 2)]])]])])]"

definition station_S1 :: json where
  "station_S1 =
     JObj [(''id'', JStr ''S1''), (''name'', JStr ''Alpha''),
           (''labelLocation'', JObj [(''latitude'', JNum 1.3), (''longitude'', JNum 103.8)])]"

definition row_S1_later :: reading_row where
  "row_S1_later =
     \<lparr>timestamp = Some \<lparr>dt_year = 2024, dt_month = 1, dt_day = 15, dt_hour = 11, dt_minute = 5,
                         dt_second = 0\<rparr>,
      station_id = JStr ''S1'', station_name = JStr ''Alpha'', latitude = JNum 1.3,
      longitude = JNum 103.8, rainfall_mm = JNum 2, hour = Some 11, date = Some (2024, 1, 15)\<rparr>"

section \<open>One payload under different field names\<close>

text \<open>
  A naming chooses one of the supported names for each logical field. A logical payload
  holds the data without the names: each field that has alternate names is an optional
  value, and every other field of an object (\<open>name\<close> among them) is kept in \<open>other\<close>,
  which must not use a name reserved for the logical fields of that object. \<open>render\<close>
  writes the logical payload as JSON under a naming.
\<close>

record naming =
  station_id_key :: string
  location_key :: string
  latitude_key :: string
  longitude_key :: string
  reading_station_key :: string
  value_key :: string
  timestamp_key :: string

definition station_names :: "naming \<Rightarrow> bool" where
  "station_names n \<longleftrightarrow>
     station_id_key n \<in> {''id'', ''stationId''}
     \<and> location_key n \<in> {''labelLocation'', ''location'', ''coordinates''}"

definition location_names :: "naming \<Rightarrow> bool" where
  "location_names n \<longleftrightarrow>
     latitude_key n \<in> {''latitude'', ''lat''}
     \<and> longitude_key n \<in> {''longitude'', ''lng'', ''lon''}"

definition point_names :: "naming \<Rightarrow> bool" where
  "point_names n \<longleftrightarrow>
     reading_station_key n \<in> {''stationId'', ''station_id'', ''id''}
     \<and> value_key n \<in> {''value'', ''rainfall''}"

definition bucket_names :: "naming \<Rightarrow> bool" where
  "bucket_names n \<longleftrightarrow> timestamp_key n \<in> {''timestamp'', ''time''}"

definition supported :: "naming \<Rightarrow> bool" where
  "supported n \<longleftrightarrow> station_names n \<and> location_names n \<and> point_names n \<and> bucket_names n"

record logical_location =
  loc_latitude :: "json option"
  loc_longitude :: "json option"
  loc_other :: "(string \<times> json) list"

record logical_station =
  st_identifier :: "json option"
  st_location :: "logical_location option"
  st_other :: "(string \<times> json) list"

record logical_point =
  pt_station :: "json option"
  pt_value :: "json option"
  pt_other :: "(string \<times> json) list"

record logical_bucket =
  bk_timestamp :: "json option"
  bk_points :: "logical_point list"
  bk_other :: "(string \<times> json) list"

record logical_payload =
  pl_stations :: "logical_station list"
  pl_readings :: "logical_bucket list"

definition field :: "string \<Rightarrow> json option \<Rightarrow> (string \<times> json) list" where
  "field k v = (case v of None \<Rightarrow> [] | Some x \<Rightarrow> [(k, x)])"

definition render_location :: "naming \<Rightarrow> logical_location \<Rightarrow> json" where
  "render_location n l =
     JObj (field (latitude_key n) (loc_latitude l) @ field (longitude_key n) (loc_longitude l)
           @ loc_other l)"

definition render_station :: "naming \<Rightarrow> logical_station \<Rightarrow> json" where
  "render_station n s =
     JObj (field (station_id_key n) (st_identifier s)
           @ field (location_key n) (map_option (render_location n) (st_location s))
           @ st_other s)"

definition render_point :: "naming \<Rightarrow> logical_point \<Rightarrow> json" where
  "render_point n p =
     JObj (field (reading_station_key n) (pt_station p) @ field (value_key n) (pt_value p)
           @ pt_other p)"

definition render_bucket :: "naming \<Rightarrow> logical_bucket \<Rightarrow> json" where
  "render_bucket n b =
     JObj (field (timestamp_key n) (bk_timestamp b)
           @ (''data'', JArr (map (render_point n) (bk_points b))) # bk_other b)"

definition render :: "naming \<Rightarrow> logical_payload \<Rightarrow> json" where
  "render n p =
     JObj [(''data'', JObj [
       (''stations'', JArr (map (render_station n) (pl_stations p))),
       (''readings'', JArr (map (render_bucket n) (pl_readings p)))])]"

definition unused :: "string list \<Rightarrow> (string \<times> json) list \<Rightarrow> bool" where
  "unused names kvs = list_all (\<lambda>k. map_of kvs k = None) names"

definition plain_location :: "logical_location \<Rightarrow> bool" where
  "plain_location l =
     unused [''latitude'', ''lat'', ''longitude'', ''lng'', ''lon''] (loc_other l)"

definition plain_station :: "logical_station \<Rightarrow> bool" where
  "plain_station s =
     (unused [''id'', ''stationId'', ''labelLocation'', ''location'', ''coordinates''] (st_other s)
      \<and> (case st_location s of None \<Rightarrow> True | Some l \<Rightarrow> plain_location l))"

definition plain_point :: "logical_point \<Rightarrow> bool" where
  "plain_point p =
     unused [''stationId'', ''station_id'', ''id'', ''value'', ''rainfall''] (pt_other p)"

definition plain_bucket :: "logical_bucket \<Rightarrow> bool" where
  "plain_bucket b =
     (unused [''timestamp'', ''time'', ''data''] (bk_other b) \<and> list_all plain_point (bk_points b))"

definition plain_payload :: "logical_payload \<Rightarrow> bool" where
  "plain_payload p = (list_all plain_station (pl_stations p) \<and> list_all plain_bucket (pl_readings p))"

text \<open>What the loop of \<open>process_stations\<close> makes of a logical station.\<close>

definition logical_coordinate :: "json option \<Rightarrow> json" where
  "logical_coordinate v = (case v of None \<Rightarrow> JNum 0 | Some x \<Rightarrow> x)"

definition store_logical_station :: "(json \<Rightarrow> string) \<Rightarrow> stations_info \<Rightarrow> logical_station \<Rightarrow> py_error + stations_info" where
  "store_logical_station fmt info s =
     (let sid = (case st_identifier s of None \<Rightarrow> JStr ''unknown'' | Some v \<Rightarrow> v)
      in and_then (py_key sid) (\<lambda>k.
           Inr (info(k \<mapsto>
             \<lparr>info_name = py_get (st_other s) ''name'' (station_label fmt sid),
              info_latitude =
                (case st_location s of None \<Rightarrow> JNum 0 | Some l \<Rightarrow> logical_coordinate (loc_latitude l)),
              info_longitude =
                (case st_location s of None \<Rightarrow> JNum 0 | Some l \<Rightarrow> logical_coordinate (loc_longitude l))\<rparr>))))"

text \<open>Two namings, and a logical payload of two stations and two buckets.\<close>

definition primary_names :: naming where
  "primary_names =
     \<lparr>station_id_key = ''id'', location_key = ''labelLocation'', latitude_key = ''latitude'',
      longitude_key = ''longitude'', reading_station_key = ''stationId'', value_key = ''value'',
      timestamp_key = ''timestamp''\<rparr>"

definition alternate_names :: naming where
  "alternate_names =
     \<lparr>station_id_key = ''stationId'', location_key = ''coordinates'', latitude_key = ''lat'',
      longitude_key = ''lon'', reading_station_key = ''station_id'', value_key = ''rainfall'',
      timestamp_key = ''time''\<rparr>"

definition logical_example :: logical_payload where
  "logical_example =
     \<lparr>pl_stations =
        [\<lparr>st_identifier = Some (JStr ''S1''),
          st_location = Some \<lparr>loc_latitude = Some (JNum 1.3), loc_longitude = Some (JNum 103.8),
                                loc_other = []\<rparr>,
          st_other = [(''name'', JStr ''Alpha'')]\<rparr>,
         \<lparr>st_identifier = Some (JStr ''S2''), st_location = None, st_other = []\<rparr>],
      pl_readings =
        [\<lparr>bk_timestamp = Some (JStr ''2024-01-15T10:00:00''),
          bk_points =
            [\<lparr>pt_station = Some (JStr ''S1''), pt_value = Some (JNum 5), pt_other = []\<rparr>,
             \<lparr>pt_station = Some (JStr ''S2''), pt_value = None, pt_other = []\<rparr>],
          bk_other = []\<rparr>,
         \<lparr>bk_timestamp = None,
          bk_points = [\<lparr>pt_station = None, pt_value = Some (JNum 1), pt_other = []\<rparr>],
          bk_other = []\<rparr>]\<rparr>"

section \<open>RainfallAnalyzer\<close>

text \<open>
  The analyzer reads the canonical table: every row has a parsed timestamp, strings for
  the station identifier and name and numbers for the coordinates and the rainfall.
  Numbers are real numbers; \<open>None\<close> of type \<open>real option\<close> is pandas' \<open>NaN\<close>. A DataFrame
  is the list of its rows together with the two columns that \<open>get_top_rainfall_areas\<close>
  adds to \<open>self.data\<close>; each is \<open>None\<close> while the column does not exist.
\<close>

type_synonym canonical_row = "(string, real, datetime, nat, int \<times> nat \<times> nat) row"

record frame =
  rows :: "canonical_row list"
  lat_group :: "real list option"
  lon_group :: "real list option"

text \<open>\<open>pd.DataFrame()\<close> and \<open>df.empty\<close>.\<close>

definition empty_frame :: frame where
  "empty_frame = \<lparr>rows = [], lat_group = None, lon_group = None\<rparr>"

definition frame_empty :: "frame \<Rightarrow> bool" where
  "frame_empty d = (rows d = [])"

subsection \<open>pandas operations\<close>

text \<open>\<open>Series.mean\<close> and \<open>Series.std\<close> (sample standard deviation, \<open>ddof = 1\<close>).\<close>

definition series_mean :: "real list \<Rightarrow> real option" where
  "series_mean xs = (if xs = [] then None else Some (sum_list xs / real (length xs)))"

definition series_std :: "real list \<Rightarrow> real option" where
  "series_std xs =
     (case series_mean xs of
        None \<Rightarrow> None
      | Some m \<Rightarrow>
          if length xs < 2 then None
          else Some (sqrt (sum_list (map (\<lambda>x. (x - m)\<^sup>2) xs) / real (length xs - 1))))"

text \<open>\<open>df.groupby(keys)\<close>: one group for each key that occurs, in ascending order of the
  keys, each group holding its rows in the order of the table.\<close>

definition groupby :: "('a \<Rightarrow> 'k::linorder) \<Rightarrow> 'a list \<Rightarrow> ('k \<times> 'a list) list" where
  "groupby key xs = map (\<lambda>k. (k, filter (\<lambda>x. key x = k) xs)) (sort (remdups (map key xs)))"

text \<open>\<open>Series.round(2)\<close>: numpy rounds \<open>x * 100\<close> to the nearest integer, a tie to the even
  one, and divides by 100.\<close>

definition rint :: "real \<Rightarrow> int" where
  "rint x =
     (let f = \<lfloor>x\<rfloor>
      in if x - of_int f < 1 / 2 then f
         else if 1 / 2 < x - of_int f then f + 1
         else if even f then f else f + 1)"

definition round2 :: "real \<Rightarrow> real" where
  "round2 x = of_int (rint (x * 100)) / 100"

subsection \<open>Rankings\<close>

text \<open>
  A row of the grouped frame of the two rankings. Grouping by station gives the columns
  \<open>station_id\<close> and \<open>station_name\<close>; grouping nearby stations gives \<open>lat_group\<close>,
  \<open>lon_group\<close> and the name of the first station of the group. A column that a frame does
  not have is \<open>None\<close> in its rows.
\<close>

record totals =
  total_rainfall :: real
  avg_rainfall :: "real option"
  reading_count :: nat

record area = totals +
  area_station_id :: "string option"
  area_station_name :: string
  area_lat_group :: "real option"
  area_lon_group :: "real option"
  area_latitude :: "real option"
  area_longitude :: "real option"

definition station_key :: "canonical_row \<Rightarrow> string \<times> string" where
  "station_key r = (station_id r, station_name r)"

definition station_area :: "(string \<times> string) \<times> canonical_row list \<Rightarrow> area" where
  "station_area g =
     \<lparr>total_rainfall = sum_list (map rainfall_mm (snd g)),
      avg_rainfall = series_mean (map rainfall_mm (snd g)),
      reading_count = length (snd g),
      area_station_id = Some (fst (fst g)),
      area_station_name = snd (fst g),
      area_lat_group = None,
      area_lon_group = None,
      area_latitude = series_mean (map latitude (snd g)),
      area_longitude = series_mean (map longitude (snd g))\<rparr>"

text \<open>The groups of \<open>self.data.groupby(['station_id', 'station_name'])\<close> after \<open>agg\<close>.\<close>

definition station_groups :: "frame \<Rightarrow> area list" where
  "station_groups d = map station_area (groupby station_key (rows d))"

definition nearby_area :: "(real \<times> real) \<times> (canonical_row \<times> real \<times> real) list \<Rightarrow> area" where
  "nearby_area g =
     \<lparr>total_rainfall = sum_list (map (\<lambda>x. rainfall_mm (fst x)) (snd g)),
      avg_rainfall = series_mean (map (\<lambda>x. rainfall_mm (fst x)) (snd g)),
      reading_count = length (snd g),
      area_station_id = None,
      area_station_name = (case snd g of [] \<Rightarrow> [] | x # xs \<Rightarrow> station_name (fst x)),
      area_lat_group = Some (fst (fst g)),
      area_lon_group = Some (snd (fst g)),
      area_latitude = series_mean (map (\<lambda>x. latitude (fst x)) (snd g)),
      area_longitude = series_mean (map (\<lambda>x. longitude (fst x)) (snd g))\<rparr>"

text \<open>\<open>nlargest(n, 'total_rainfall')\<close> and \<open>nsmallest(n, 'total_rainfall')\<close>: the first
  \<open>n\<close> rows in descending (ascending) order of the total; rows of equal total keep the
  order of the grouped frame.\<close>

definition nlargest :: "int \<Rightarrow> area list \<Rightarrow> area list" where
  "nlargest n xs = take (nat n) (sort_key (\<lambda>a. - total_rainfall a) xs)"

definition nsmallest :: "int \<Rightarrow> area list \<Rightarrow> area list" where
  "nsmallest n xs = take (nat n) (sort_key total_rainfall xs)"

text \<open>\<open>get_top_rainfall_areas\<close> assigns the two grouping columns to \<open>self.data\<close>: it
  returns the ranking and the new value of \<open>self.data\<close>.\<close>

definition get_top_rainfall_areas :: "frame \<Rightarrow> int \<Rightarrow> bool \<Rightarrow> area list \<times> frame" where
  "get_top_rainfall_areas d n group_nearby =
     (if frame_empty d then ([], d)
      else if group_nearby then
        (let lat = map (\<lambda>r. round2 (latitude r)) (rows d);
             lon = map (\<lambda>r. round2 (longitude r)) (rows d);
             d' = d\<lparr>lat_group := Some lat, lon_group := Some lon\<rparr>;
             grouped = map nearby_area (groupby snd (zip (rows d') (zip lat lon)))
         in (nlargest n grouped, d'))
      else (nlargest n (station_groups d), d))"

definition get_lowest_rainfall_areas :: "frame \<Rightarrow> int \<Rightarrow> area list" where
  "get_lowest_rainfall_areas d n =
     (if frame_empty d then [] else nsmallest n (station_groups d))"

subsection \<open>Hourly distribution\<close>

record hourly = totals +
  hour_of_day :: nat
  std_rainfall :: "real option"

definition hourly_row :: "nat \<times> canonical_row list \<Rightarrow> hourly" where
  "hourly_row g =
     \<lparr>total_rainfall = sum_list (map rainfall_mm (snd g)),
      avg_rainfall = series_mean (map rainfall_mm (snd g)),
      reading_count = length (snd g),
      hour_of_day = fst g,
      std_rainfall = series_std (map rainfall_mm (snd g))\<rparr>"

definition get_hourly_distribution :: "frame \<Rightarrow> hourly list" where
  "get_hourly_distribution d =
     (if frame_empty d then []
      else sort_key hour_of_day (map hourly_row (groupby hour (rows d))))"

subsection \<open>Monthly average and alerts\<close>

text \<open>
  \<open>current_month\<close> and \<open>current_year\<close> are the two readings of \<open>datetime.now()\<close>. The
  rows of the month are selected by the boolean mask of the source.
\<close>

definition get_monthly_average :: "nat \<Rightarrow> int \<Rightarrow> frame \<Rightarrow> real option" where
  "get_monthly_average current_month current_year d =
     (if frame_empty d then Some 0
      else
        (let mask = map (\<lambda>r. dt_month (timestamp r) = current_month
                            \<and> dt_year (timestamp r) = current_year) (rows d);
             monthly_data = map fst (filter snd (zip (rows d) mask))
         in if monthly_data = [] then series_mean (map rainfall_mm (rows d))
            else series_mean (map rainfall_mm monthly_data)))"

record station_average =
  avg_station_id :: string
  avg_station_name :: string
  avg_rainfall_mm :: "real option"
  avg_latitude :: "real option"
  avg_longitude :: "real option"

record alert =
  alert_station_id :: string
  alert_station_name :: string
  alert_rainfall_mm :: real
  alert_latitude :: "real option"
  alert_longitude :: "real option"
  threshold :: real
  excess_rainfall :: real

definition station_mean :: "(string \<times> string) \<times> canonical_row list \<Rightarrow> station_average" where
  "station_mean g =
     \<lparr>avg_station_id = fst (fst g),
      avg_station_name = snd (fst g),
      avg_rainfall_mm = series_mean (map rainfall_mm (snd g)),
      avg_latitude = series_mean (map latitude (snd g)),
      avg_longitude = series_mean (map longitude (snd g))\<rparr>"

definition station_averages :: "frame \<Rightarrow> station_average list" where
  "station_averages d = map station_mean (groupby station_key (rows d))"

text \<open>The row of \<open>alert_areas\<close> for a station whose mean exceeds the threshold; a
  comparison with \<open>NaN\<close> is false.\<close>

definition exceeding :: "real option \<Rightarrow> station_average \<Rightarrow> alert option" where
  "exceeding thr s =
     (case (avg_rainfall_mm s, thr) of
        (Some m, Some t) \<Rightarrow>
          if t < m then
            Some \<lparr>alert_station_id = avg_station_id s,
                  alert_station_name = avg_station_name s,
                  alert_rainfall_mm = m,
                  alert_latitude = avg_latitude s,
                  alert_longitude = avg_longitude s,
                  threshold = t,
                  excess_rainfall = m - t\<rparr>
          else None
      | _ \<Rightarrow> None)"

definition get_alert_areas :: "nat \<Rightarrow> int \<Rightarrow> frame \<Rightarrow> real \<Rightarrow> alert list \<times> real option" where
  "get_alert_areas current_month current_year d threshold_multiplier =
     (if frame_empty d then ([], Some 0)
      else
        (let monthly_avg = get_monthly_average current_month current_year d;
             thr = map_option (\<lambda>a. a * threshold_multiplier) monthly_avg;
             alert_areas = List.map_filter (exceeding thr) (station_averages d)
         in (sort_key (\<lambda>a. - excess_rainfall a) alert_areas, thr)))"

subsection \<open>Summary statistics\<close>

record summary =
  total_stations :: nat
  total_readings :: nat
  stats_avg_rainfall :: "real option"
  max_rainfall :: real
  min_rainfall :: real
  stats_std_rainfall :: "real option"
  zero_rainfall_readings :: nat
  time_range_start :: datetime
  time_range_end :: datetime

definition dt_key :: "datetime \<Rightarrow> int \<times> nat \<times> nat \<times> nat \<times> nat \<times> nat" where
  "dt_key t = (dt_year t, dt_month t, dt_day t, dt_hour t, dt_minute t, dt_second t)"

definition earlier :: "datetime \<Rightarrow> datetime \<Rightarrow> datetime" where
  "earlier a b = (if dt_key a \<le> dt_key b then a else b)"

definition later :: "datetime \<Rightarrow> datetime \<Rightarrow> datetime" where
  "later a b = (if dt_key a \<le> dt_key b then b else a)"

text \<open>\<open>None\<close> is the empty dict that an empty table gives.\<close>

definition generate_summary_stats :: "frame \<Rightarrow> summary option" where
  "generate_summary_stats d =
     (case rows d of
        [] \<Rightarrow> None
      | r # rs \<Rightarrow>
          Some \<lparr>total_stations = length (remdups (map station_id (rows d))),
                total_readings = length (rows d),
                stats_avg_rainfall = series_mean (map rainfall_mm (rows d)),
                max_rainfall = fold max (map rainfall_mm rs) (rainfall_mm r),
                min_rainfall = fold min (map rainfall_mm rs) (rainfall_mm r),
                stats_std_rainfall = series_std (map rainfall_mm (rows d)),
                zero_rainfall_readings = length (filter (\<lambda>x. rainfall_mm x = 0) (rows d)),
                time_range_start = fold earlier (map timestamp rs) (timestamp r),
                time_range_end = fold later (map timestamp rs) (timestamp r)\<rparr>)"

subsection \<open>The analyzer object and the table of its caller\<close>

text \<open>
  DataFrames are objects: the heap is the list of the DataFrames allocated so far and a
  reference is an index into it. \<open>__init__\<close> stores in \<open>self.data\<close> a reference to a new
  object, the copy of the caller's table or a new empty DataFrame.
  \<open>get_top_rainfall_areas\<close> is the only method that assigns to \<open>self.data\<close>; the other
  methods only read \<open>self.data\<close>.
\<close>

type_synonym heap = "frame list"

record analyzer =
  data :: nat

definition RainfallAnalyzer :: "heap \<Rightarrow> nat \<Rightarrow> analyzer \<times> heap" where
  "RainfallAnalyzer h caller_data =
     (\<lparr>data = length h\<rparr>,
      h @ [if \<not> frame_empty (h ! caller_data) then h ! caller_data else empty_frame])"

definition top_rainfall_areas :: "analyzer \<Rightarrow> int \<Rightarrow> bool \<Rightarrow> heap \<Rightarrow> area list \<times> heap" where
  "top_rainfall_areas self n group_nearby h =
     (case get_top_rainfall_areas (h ! data self) n group_nearby of
        (ranking, d') \<Rightarrow> (ranking, h[data self := d']))"

subsection \<open>Example tables\<close>

definition reading_at :: "string \<Rightarrow> string \<Rightarrow> real \<Rightarrow> real \<Rightarrow> nat \<Rightarrow> real \<Rightarrow> canonical_row" where
  "reading_at sid name lat lon h mm =
     \<lparr>timestamp = \<lparr>dt_year = 2024, dt_month = 1, dt_day = 15, dt_hour = h, dt_minute = 0,
                    dt_second = 0\<rparr>,
      station_id = sid, station_name = name, latitude = lat, longitude = lon,
      rainfall_mm = mm, hour = h, date = (2024, 1, 15)\<rparr>"

text \<open>Two stations with the readings 0, 5 and 10 at the hours 0, 1 and 2.\<close>

definition example_table :: frame where
  "example_table =
     \<lparr>rows =
        [reading_at ''S1'' ''Alpha'' 1.3 103.8 0 0, reading_at ''S2'' ''Beta'' 1.35 103.82 0 0,
         reading_at ''S1'' ''Alpha'' 1.3 103.8 1 5, reading_at ''S2'' ''Beta'' 1.35 103.82 1 5,
         reading_at ''S1'' ''Alpha'' 1.3 103.8 2 10, reading_at ''S2'' ''Beta'' 1.35 103.82 2 10],
      lat_group = None, lon_group = None\<rparr>"

text \<open>Two stations with means 3.5 and 0.5: the average of the table is 2.\<close>

definition alert_table :: frame where
  "alert_table =
     \<lparr>rows = [reading_at ''S1'' ''Alpha'' 1.3 103.8 0 3.5, reading_at ''S2'' ''Beta'' 1.35 103.82 0 0.5],
      lat_group = None, lon_group = None\<rparr>"

text \<open>A table in which no rain fell.\<close>

definition dry_table :: frame where
  "dry_table =
     \<lparr>rows = [reading_at ''S1'' ''Alpha'' 1.3 103.8 0 0, reading_at ''S2'' ''Beta'' 1.35 103.82 1 0],
      lat_group = None, lon_group = None\<rparr>"

subsection \<open>The aggregations as the specification reads them\<close>

text \<open>The arithmetic mean, the rows of the station of a row, and the rows of a month.\<close>

definition mean :: "real list \<Rightarrow> real" where
  "mean xs = sum_list xs / real (length xs)"

definition station_rows :: "frame \<Rightarrow> canonical_row \<Rightarrow> canonical_row list" where
  "station_rows d r = filter (\<lambda>x. station_key x = station_key r) (rows d)"

definition month_rows :: "nat \<Rightarrow> int \<Rightarrow> frame \<Rightarrow> canonical_row list" where
  "month_rows m y d = filter (\<lambda>r. dt_month (timestamp r) = m \<and> dt_year (timestamp r) = y) (rows d)"

definition monthly_mean :: "nat \<Rightarrow> int \<Rightarrow> frame \<Rightarrow> real" where
  "monthly_mean m y d =
     (if month_rows m y d = [] then mean (map rainfall_mm (rows d))
      else mean (map rainfall_mm (month_rows m y d)))"

text \<open>The alert row of the station of a row, for a threshold.\<close>

definition alert_row :: "real \<Rightarrow> frame \<Rightarrow> canonical_row \<Rightarrow> alert" where
  "alert_row thr d r =
     \<lparr>alert_station_id = station_id r,
      alert_station_name = station_name r,
      alert_rainfall_mm = mean (map rainfall_mm (station_rows d r)),
      alert_latitude = Some (mean (map latitude (station_rows d r))),
      alert_longitude = Some (mean (map longitude (station_rows d r))),
      threshold = thr,
      excess_rainfall = mean (map rainfall_mm (station_rows d r)) - thr\<rparr>"

section \<open>RainfallAnalyzer on the table of \<open>process_readings\<close>\<close>

text \<open>
  \<open>app.py\<close> hands the table that \<open>process_readings\<close> returns to \<open>RainfallAnalyzer\<close> as
  it is (line 221). Its cells are the JSON values that the processor copied from the
  payload, a timestamp may be \<open>NaT\<close> and an hour \<open>NaN\<close> (both \<open>None\<close>). The operations of
  this section are the methods of the analyzer on such a table; an exception that pandas
  raises is an outcome. On a table whose cells are strings and numbers they compute what
  the operations of the previous section compute on the canonical table.

  pandas is a parameter where the source does not determine what it does:
  \<^item> an aggregate (\<open>sum\<close>, \<open>mean\<close>, \<open>count\<close>, \<open>std\<close>, \<open>max\<close>, \<open>min\<close>) of a slice of a column
    computes with the numbers of the slice and skips missing values. A slice of numbers
    is aggregated as it is, and the mean of a slice that holds a string raises
    \<open>TypeError\<close>; for a slice with other cells (\<open>None\<close>, booleans, lists, objects)
    \<open>object_numbers\<close> gives the numbers that are aggregated, or the exception;
  \<^item> \<open>groupby\<close> sorts the distinct keys of a column of strings; for a column with other
    cells \<open>object_keys\<close> gives the distinct keys that are not missing, in the order of the
    groups, or the exception;
  \<^item> \<open>round(2)\<close> rounds a column of numbers; for a column with other cells \<open>object_round\<close>
    gives the rounded column (\<open>None\<close> is \<open>NaN\<close>), or the exception.
\<close>

record pandas =
  object_numbers :: "json list \<Rightarrow> py_error + real list"
  object_keys :: "json list \<Rightarrow> py_error + json list"
  object_round :: "json list \<Rightarrow> py_error + real option list"

fun cell_number :: "json \<Rightarrow> real option" where
  "cell_number (JNum x) = Some x"
| "cell_number v = None"

fun cell_string :: "json \<Rightarrow> string option" where
  "cell_string (JStr s) = Some s"
| "cell_string v = None"

definition slice_numbers :: "pandas \<Rightarrow> json list \<Rightarrow> py_error + real list" where
  "slice_numbers lib cells =
     (if list_all (\<lambda>c. cell_number c \<noteq> None) cells then Inr (List.map_filter cell_number cells)
      else if list_ex (\<lambda>c. cell_string c \<noteq> None) cells then Inl TypeError
      else object_numbers lib cells)"

definition group_keys :: "pandas \<Rightarrow> json list \<Rightarrow> py_error + json list" where
  "group_keys lib cells =
     (if list_all (\<lambda>c. cell_string c \<noteq> None) cells
      then Inr (map JStr (sort (remdups (List.map_filter cell_string cells))))
      else object_keys lib cells)"

definition rounded :: "pandas \<Rightarrow> json list \<Rightarrow> py_error + real option list" where
  "rounded lib cells =
     (if list_all (\<lambda>c. cell_number c \<noteq> None) cells
      then Inr (map (\<lambda>c. map_option round2 (cell_number c)) cells)
      else object_round lib cells)"

text \<open>\<open>Series.max\<close> and \<open>Series.min\<close>: \<open>NaN\<close> for a slice without a value.\<close>

definition series_max :: "real list \<Rightarrow> real option" where
  "series_max xs = (case xs of [] \<Rightarrow> None | x # ys \<Rightarrow> Some (fold max ys x))"

definition series_min :: "real list \<Rightarrow> real option" where
  "series_min xs = (case xs of [] \<Rightarrow> None | x # ys \<Rightarrow> Some (fold min ys x))"

text \<open>
  \<open>agg\<close> takes the aggregates of one column after the other, and those of a column group
  by group: \<open>group_numbers\<close> gives the numbers of a column for every group, or the first
  exception.
\<close>

definition group_numbers ::
  "pandas \<Rightarrow> (reading_row \<Rightarrow> json) \<Rightarrow> ('k \<times> reading_row list) list \<Rightarrow> py_error + real list list" where
  "group_numbers lib column groups = traverse (\<lambda>g. slice_numbers lib (map column (snd g))) groups"

subsection \<open>Rankings\<close>

text \<open>
  \<open>self.data.groupby(['station_id', 'station_name'])\<close>: the groups are the pairs of keys
  that occur in a row, in the order of the first key and then of the second; a row with a
  missing key is in no group.
\<close>

definition groupby_station ::
  "pandas \<Rightarrow> reading_row list \<Rightarrow> py_error + ((json \<times> json) \<times> reading_row list) list" where
  "groupby_station lib tbl =
     and_then (group_keys lib (map station_id tbl)) (\<lambda>ids.
     and_then (group_keys lib (map station_name tbl)) (\<lambda>names.
       Inr (filter (\<lambda>g. snd g \<noteq> [])
              (map (\<lambda>k. (k, filter (\<lambda>r. (station_id r, station_name r) = k) tbl))
                 (List.product ids names)))))"

record ranked = totals +
  ranked_station_id :: "json option"
  ranked_station_name :: "json option"
  ranked_lat_group :: "real option"
  ranked_lon_group :: "real option"
  ranked_latitude :: "real option"
  ranked_longitude :: "real option"

definition ranked_station :: "(json \<times> json) \<times> reading_row list \<Rightarrow> real list \<Rightarrow> real list \<Rightarrow> real list \<Rightarrow> ranked" where
  "ranked_station g rain lat lon =
     \<lparr>total_rainfall = sum_list rain,
      avg_rainfall = series_mean rain,
      reading_count = length rain,
      ranked_station_id = Some (fst (fst g)),
      ranked_station_name = Some (snd (fst g)),
      ranked_lat_group = None,
      ranked_lon_group = None,
      ranked_latitude = series_mean lat,
      ranked_longitude = series_mean lon\<rparr>"

text \<open>\<open>'station_name': 'first'\<close> is the first name of the group that is not missing.\<close>

definition ranked_nearby :: "(real \<times> real) \<times> reading_row list \<Rightarrow> real list \<Rightarrow> real list \<Rightarrow> real list \<Rightarrow> ranked" where
  "ranked_nearby g rain lat lon =
     \<lparr>total_rainfall = sum_list rain,
      avg_rainfall = series_mean rain,
      reading_count = length rain,
      ranked_station_id = None,
      ranked_station_name = find (\<lambda>c. c \<noteq> JNull) (map station_name (snd g)),
      ranked_lat_group = Some (fst (fst g)),
      ranked_lon_group = Some (snd (fst g)),
      ranked_latitude = series_mean lat,
      ranked_longitude = series_mean lon\<rparr>"

definition aggregate ::
  "pandas \<Rightarrow> ('k \<times> reading_row list \<Rightarrow> real list \<Rightarrow> real list \<Rightarrow> real list \<Rightarrow> 'a)
     \<Rightarrow> ('k \<times> reading_row list) list \<Rightarrow> py_error + 'a list" where
  "aggregate lib row_of groups =
     and_then (group_numbers lib rainfall_mm groups) (\<lambda>rain.
     and_then (group_numbers lib latitude groups) (\<lambda>lat.
     and_then (group_numbers lib longitude groups) (\<lambda>lon.
       Inr (map (\<lambda>(g, x, y, z). row_of g x y z) (zip groups (zip rain (zip lat lon)))))))"

definition station_groups_df :: "pandas \<Rightarrow> reading_row list \<Rightarrow> py_error + ranked list" where
  "station_groups_df lib tbl =
     and_then (groupby_station lib tbl) (\<lambda>groups. aggregate lib ranked_station groups)"

text \<open>
  The groups of \<open>self.data.groupby(['lat_group', 'lon_group'])\<close>: a row with a missing
  rounded coordinate is in no group.
\<close>

definition groupby_nearby ::
  "reading_row list \<Rightarrow> real option list \<Rightarrow> real option list \<Rightarrow> ((real \<times> real) \<times> reading_row list) list" where
  "groupby_nearby tbl lat_column lon_column =
     map (\<lambda>g. (fst g, map snd (snd g)))
       (groupby fst
          (List.map_filter
             (\<lambda>(r, a, b). case (a, b) of (Some x, Some y) \<Rightarrow> Some ((x, y), r) | _ \<Rightarrow> None)
             (zip tbl (zip lat_column lon_column))))"

definition largest :: "int \<Rightarrow> ranked list \<Rightarrow> ranked list" where
  "largest n xs = take (nat n) (sort_key (\<lambda>a. - total_rainfall a) xs)"

definition smallest :: "int \<Rightarrow> ranked list \<Rightarrow> ranked list" where
  "smallest n xs = take (nat n) (sort_key total_rainfall xs)"

definition get_top_rainfall_areas_df ::
  "pandas \<Rightarrow> reading_row list \<Rightarrow> int \<Rightarrow> bool \<Rightarrow> py_error + ranked list" where
  "get_top_rainfall_areas_df lib tbl n group_nearby =
     (if tbl = [] then Inr []
      else if group_nearby then
        and_then (rounded lib (map latitude tbl)) (\<lambda>lat_column.
        and_then (rounded lib (map longitude tbl)) (\<lambda>lon_column.
        and_then (aggregate lib ranked_nearby (groupby_nearby tbl lat_column lon_column)) (\<lambda>grouped.
          Inr (largest n grouped))))
      else and_then (station_groups_df lib tbl) (\<lambda>grouped. Inr (largest n grouped)))"

definition get_lowest_rainfall_areas_df ::
  "pandas \<Rightarrow> reading_row list \<Rightarrow> int \<Rightarrow> py_error + ranked list" where
  "get_lowest_rainfall_areas_df lib tbl n =
     (if tbl = [] then Inr []
      else and_then (station_groups_df lib tbl) (\<lambda>grouped. Inr (smallest n grouped)))"

subsection \<open>Hourly distribution\<close>

text \<open>
  \<open>self.data.groupby('hour')\<close>: one group for each hour that occurs, in ascending order;
  a row whose hour is \<open>NaN\<close> is in no group.
\<close>

definition groupby_hour :: "reading_row list \<Rightarrow> (nat \<times> reading_row list) list" where
  "groupby_hour tbl =
     map (\<lambda>h. (h, filter (\<lambda>r. hour r = Some h) tbl)) (sort (remdups (List.map_filter hour tbl)))"

definition hourly_of :: "nat \<times> reading_row list \<Rightarrow> real list \<Rightarrow> hourly" where
  "hourly_of g rain =
     \<lparr>total_rainfall = sum_list rain,
      avg_rainfall = series_mean rain,
      reading_count = length rain,
      hour_of_day = fst g,
      std_rainfall = series_std rain\<rparr>"

definition get_hourly_distribution_df :: "pandas \<Rightarrow> reading_row list \<Rightarrow> py_error + hourly list" where
  "get_hourly_distribution_df lib tbl =
     (if tbl = [] then Inr []
      else
        and_then (group_numbers lib rainfall_mm (groupby_hour tbl)) (\<lambda>rain.
          Inr (sort_key hour_of_day
                 (map (\<lambda>(g, x). hourly_of g x) (zip (groupby_hour tbl) rain)))))"

subsection \<open>Monthly average and alerts\<close>

text \<open>The month and the year of \<open>NaT\<close> are \<open>NaN\<close>, which equals no number.\<close>

definition get_monthly_average_df ::
  "pandas \<Rightarrow> nat \<Rightarrow> int \<Rightarrow> reading_row list \<Rightarrow> py_error + real option" where
  "get_monthly_average_df lib current_month current_year tbl =
     (if tbl = [] then Inr (Some 0)
      else
        (let mask = map (\<lambda>r. case timestamp r of
                                None \<Rightarrow> False
                              | Some t \<Rightarrow> dt_month t = current_month \<and> dt_year t = current_year) tbl;
             monthly_data = map fst (filter snd (zip tbl mask))
         in if monthly_data = []
            then and_then (slice_numbers lib (map rainfall_mm tbl)) (\<lambda>xs. Inr (series_mean xs))
            else and_then (slice_numbers lib (map rainfall_mm monthly_data))
                   (\<lambda>xs. Inr (series_mean xs))))"

record station_mean_df =
  mean_station_id :: json
  mean_station_name :: json
  mean_rainfall_mm :: "real option"
  mean_latitude :: "real option"
  mean_longitude :: "real option"

record alert_df = station_mean_df +
  alert_threshold :: real
  alert_excess_rainfall :: real

definition station_mean_of ::
  "(json \<times> json) \<times> reading_row list \<Rightarrow> real list \<Rightarrow> real list \<Rightarrow> real list \<Rightarrow> station_mean_df" where
  "station_mean_of g rain lat lon =
     \<lparr>mean_station_id = fst (fst g),
      mean_station_name = snd (fst g),
      mean_rainfall_mm = series_mean rain,
      mean_latitude = series_mean lat,
      mean_longitude = series_mean lon\<rparr>"

definition exceeding_df :: "real option \<Rightarrow> station_mean_df \<Rightarrow> alert_df option" where
  "exceeding_df thr s =
     (case (mean_rainfall_mm s, thr) of
        (Some m, Some t) \<Rightarrow>
          if t < m then
            Some \<lparr>mean_station_id = mean_station_id s,
                  mean_station_name = mean_station_name s,
                  mean_rainfall_mm = Some m,
                  mean_latitude = mean_latitude s,
                  mean_longitude = mean_longitude s,
                  alert_threshold = t,
                  alert_excess_rainfall = m - t\<rparr>
          else None
      | _ \<Rightarrow> None)"

definition get_alert_areas_df ::
  "pandas \<Rightarrow> nat \<Rightarrow> int \<Rightarrow> reading_row list \<Rightarrow> real \<Rightarrow> py_error + alert_df list \<times> real option" where
  "get_alert_areas_df lib current_month current_year tbl threshold_multiplier =
     (if tbl = [] then Inr ([], Some 0)
      else
        and_then (get_monthly_average_df lib current_month current_year tbl) (\<lambda>monthly_avg.
        and_then (groupby_station lib tbl) (\<lambda>groups.
        and_then (aggregate lib station_mean_of groups) (\<lambda>station_averages.
          (let thr = map_option (\<lambda>a. a * threshold_multiplier) monthly_avg;
               alert_areas = List.map_filter (exceeding_df thr) station_averages
           in Inr (sort_key (\<lambda>a. - alert_excess_rainfall a) alert_areas, thr))))))"

subsection \<open>Summary statistics\<close>

text \<open>
  \<open>nunique\<close> counts the distinct station identifiers that are not missing; the minimum
  and the maximum of the timestamps skip \<open>NaT\<close>.
\<close>

record summary_df =
  df_total_stations :: nat
  df_total_readings :: nat
  df_avg_rainfall :: "real option"
  df_max_rainfall :: "real option"
  df_min_rainfall :: "real option"
  df_std_rainfall :: "real option"
  df_zero_rainfall_readings :: nat
  df_time_range_start :: "datetime option"
  df_time_range_end :: "datetime option"

definition generate_summary_stats_df :: "pandas \<Rightarrow> reading_row list \<Rightarrow> py_error + summary_df option" where
  "generate_summary_stats_df lib tbl =
     (if tbl = [] then Inr None
      else
        and_then (group_keys lib (map station_id tbl)) (\<lambda>ids.
        and_then (slice_numbers lib (map rainfall_mm tbl)) (\<lambda>rain.
          (let times = List.map_filter timestamp tbl
           in Inr (Some
                \<lparr>df_total_stations = length ids,
                 df_total_readings = length tbl,
                 df_avg_rainfall = series_mean rain,
                 df_max_rainfall = series_max rain,
                 df_min_rainfall = series_min rain,
                 df_std_rainfall = series_std rain,
                 df_zero_rainfall_readings = length (filter (\<lambda>x. x = 0) rain),
                 df_time_range_start =
                   (case times of [] \<Rightarrow> None | t # ts \<Rightarrow> Some (fold earlier ts t)),
                 df_time_range_end =
                   (case times of [] \<Rightarrow> None | t # ts \<Rightarrow> Some (fold later ts t))\<rparr>)))))"

subsection \<open>Tables and examples\<close>

text \<open>
  A table whose station identifiers and names are strings and whose coordinates and
  rainfall values are numbers; timestamps and hours may be missing.
\<close>

definition typed_row :: "reading_row \<Rightarrow> bool" where
  "typed_row r =
     (cell_string (station_id r) \<noteq> None \<and> cell_string (station_name r) \<noteq> None
      \<and> cell_number (latitude r) \<noteq> None \<and> cell_number (longitude r) \<noteq> None
      \<and> cell_number (rainfall_mm r) \<noteq> None)"

definition typed_table :: "reading_row list \<Rightarrow> bool" where
  "typed_table tbl = list_all typed_row tbl"

text \<open>The numbers of a column of some rows, and the rainfall values of the rows of an hour.\<close>

definition column_numbers :: "(reading_row \<Rightarrow> json) \<Rightarrow> reading_row list \<Rightarrow> real list" where
  "column_numbers column rs = List.map_filter cell_number (map column rs)"

definition hour_rainfall :: "reading_row list \<Rightarrow> nat \<Rightarrow> real list" where
  "hour_rainfall tbl h = column_numbers rainfall_mm (filter (\<lambda>r. hour r = Some h) tbl)"

text \<open>A payload whose one rainfall value is the string \<open>wet\<close>, and the table it gives.\<close>

definition payload_wet :: json where
  "payload_wet =
     JObj [(''data'', JObj [(''readings'', JArr [
       JObj [(''timestamp'', JStr ''2024-01-15T10:00:00''),
             (''data'', JArr [JObj [(''stationId'', JStr ''S1''), (''value'', JStr ''wet'')]])]])])]"

definition wet_table :: "reading_row list" where
  "wet_table =
     [\<lparr>timestamp = Some \<lparr>dt_year = 2024, dt_month = 1, dt_day = 15, dt_hour = 10, dt_minute = 0,
                          dt_second = 0\<rparr>,
       station_id = JStr ''S1'', station_name = JStr ''Station_S1'', latitude = JNum 0,
       longitude = JNum 0, rainfall_mm = JStr ''wet'', hour = Some 10,
       date = Some (2024, 1, 15)\<rparr>]"

text \<open>The table of \<open>payload_two_buckets\<close> after its stations are stored: the third row has
  neither timestamp nor hour.\<close>

definition two_buckets_table :: "reading_row list" where
  "two_buckets_table =
     [\<lparr>timestamp = Some \<lparr>dt_year = 2024, dt_month = 1, dt_day = 15, dt_hour = 10, dt_minute = 0,
                          dt_second = 0\<rparr>,
       station_id = JStr ''S1'', station_name = JStr ''Alpha'', latitude = JNum 1.3,
       longitude = JNum 103.8, rainfall_mm = JNum 0, hour = Some 10,
       date = Some (2024, 1, 15)\<rparr>,
      \<lparr>timestamp = Some \<lparr>dt_year = 2024, dt_month = 1, dt_day = 15, dt_hour = 10, dt_minute = 0,
                          dt_second = 0\<rparr>,
       station_id = JStr ''S2'', station_name = JStr ''Beta'', latitude = JNum 1.35,
       longitude = JNum 103.82, rainfall_mm = JNum 5, hour = Some 10,
       date = Some (2024, 1, 15)\<rparr>,
      \<lparr>timestamp = None,
       station_id = JStr ''S1'', station_name = JStr ''Alpha'', latitude = JNum 1.3,
       longitude = JNum 103.8, rainfall_mm = JNum 10, hour = None, date = None\<rparr>]"

section \<open>Loops that stop at the first exception\<close>

lemma traverse_InrD: "traverse f xs = Inr ys \<Longrightarrow> list_all2 (\<lambda>x y. f x = Inr y) xs ys"
  by (induction xs arbitrary: ys) (auto split: sum.splits)

lemma traverse_total:
  "(\<And>x. x \<in> set xs \<Longrightarrow> \<exists>y. f x = Inr y) \<Longrightarrow> \<exists>ys. traverse f xs = Inr ys"
proof (induction xs)
  case Nil
  show ?case by simp
next
  case (Cons x xs)
  from Cons.prems obtain y where y: "f x = Inr y" by auto
  from Cons obtain ys where "traverse f xs = Inr ys" by auto
  with y show ?case by simp
qed

section \<open>Rows of the table that \<open>process_readings\<close> builds\<close>

lemma point_row_ok:
  assumes "well_formed_point p" and "to_datetime conv ts = Inr t"
  shows "\<exists>r. point_row conv fmt info ts p = Inr r \<and> timestamp r = t"
  using assms
  by (auto simp: well_formed_point_def point_row_def and_then_def Let_def split: json.splits sum.splits)

lemma traverse_constant:
  assumes "\<And>x. x \<in> set xs \<Longrightarrow> \<exists>y. f x = Inr y \<and> g y = c"
  shows "\<exists>ys. traverse f xs = Inr ys \<and> map g ys = replicate (length xs) c"
  using assms
proof (induction xs)
  case Nil
  show ?case by simp
next
  case (Cons x xs)
  from Cons.prems obtain y where y: "f x = Inr y" "g y = c" by auto
  from Cons obtain ys where "traverse f xs = Inr ys" "map g ys = replicate (length xs) c" by auto
  with y show ?case by simp
qed

lemma bucket_rows_ok:
  assumes "well_formed_bucket conv b"
  shows "\<exists>tbl. bucket_rows conv fmt info b = Inr tbl
     \<and> map timestamp tbl
         = replicate (length (bucket_points b)) (converted conv (bucket_timestamp b))"
proof -
  from assms obtain r ps where b: "b = JObj r" and ps: "py_get r ''data'' (JArr []) = JArr ps"
    and wf: "list_all well_formed_point ps" and cv: "ps = [] \<or> converts conv (bucket_timestamp b)"
    by (auto simp: well_formed_bucket_def split: json.splits)
  have bp: "bucket_points b = ps" by (simp add: bucket_points_def b ps)
  let ?ts = "bucket_timestamp b"
  have br: "bucket_rows conv fmt info b = traverse (point_row conv fmt info ?ts) ps"
    by (simp add: bucket_rows_def b ps and_then_def bucket_timestamp_def)
  show ?thesis
  proof (cases "ps = []")
    case True
    then show ?thesis by (simp add: br bp)
  next
    case False
    with cv obtain t where t: "to_datetime conv ?ts = Inr t"
      by (auto simp: converts_def split: sum.splits)
    then have c: "converted conv ?ts = t" by (simp add: converted_def)
    have "\<And>p. p \<in> set ps \<Longrightarrow> \<exists>y. point_row conv fmt info ?ts p = Inr y \<and> timestamp y = t"
      using wf t point_row_ok by (fastforce simp: list_all_iff)
    then have "\<exists>ys. traverse (point_row conv fmt info ?ts) ps = Inr ys
        \<and> map timestamp ys = replicate (length ps) t"
      by (rule traverse_constant)
    then show ?thesis by (simp add: br bp c)
  qed
qed

lemma traverse_bucket_rows:
  assumes "list_all (well_formed_bucket conv) rs"
  shows "\<exists>tbls. traverse (bucket_rows conv fmt info) rs = Inr tbls
     \<and> map timestamp (concat tbls)
         = concat (map (\<lambda>r. replicate (length (bucket_points r)) (converted conv (bucket_timestamp r))) rs)"
  using assms
proof (induction rs)
  case Nil
  show ?case by simp
next
  case (Cons b rs)
  from Cons.prems have "well_formed_bucket conv b" by simp
  from bucket_rows_ok[OF this, of fmt info] obtain tbl1 where
    r1: "bucket_rows conv fmt info b = Inr tbl1"
      "map timestamp tbl1 = replicate (length (bucket_points b)) (converted conv (bucket_timestamp b))"
    by blast
  from Cons obtain tbls where
    r2: "traverse (bucket_rows conv fmt info) rs = Inr tbls"
     "map timestamp (concat tbls)
         = concat (map (\<lambda>r. replicate (length (bucket_points r)) (converted conv (bucket_timestamp r))) rs)"
    by auto
  show ?case using r1 r2 by simp
qed

lemma column_value_converted: "column_value (converted conv ts) \<noteq> None \<longleftrightarrow> parsed conv ts"
  by (auto simp: converted_def parsed_def split: sum.splits tsval.splits)

lemma count_in_replicates:
  "length (filter P (concat (map (\<lambda>r. replicate (n r) (c r)) rs)))
   = sum_list (map (\<lambda>r. if P (c r) then n r else 0) rs)"
  by (induction rs) simp_all

lemma count_parsed_values:
  "length (filter (\<lambda>t. column_value t \<noteq> None)
      (concat (map (\<lambda>r. replicate (length (bucket_points r)) (converted conv (bucket_timestamp r))) rs)))
   = sum_list (map (\<lambda>r. if parsed conv (bucket_timestamp r) then length (bucket_points r) else 0) rs)"
  unfolding count_in_replicates column_value_converted by (rule refl)

lemma count_dated_rows:
  "length (filter (\<lambda>r. timestamp r \<noteq> None) (map with_hour_and_date ps))
   = length (filter (\<lambda>t. column_value t \<noteq> None) (map timestamp ps))"
  by (induction ps) (simp_all add: with_hour_and_date_def Let_def)

lemma readings_section:
  assumes "api_response = JObj body" and "map_of body ''data'' = Some (JObj d)"
    and "map_of d ''readings'' = Some (JArr rs)"
  shows "process_readings conv fmt info api_response =
     and_then (traverse (bucket_rows conv fmt info) rs) (\<lambda>tbls.
       if concat tbls = [] then Inr []
       else if datetime_column (map timestamp (concat tbls))
       then Inr (map with_hour_and_date (concat tbls))
       else Inl AttributeError)"
proof (cases rs)
  case Nil
  have "body \<noteq> []" using assms(2) by auto
  then have "data_section ''readings'' api_response = Inr None"
    by (simp add: data_section_def assms Nil and_then_def py_get_def)
  then show ?thesis by (simp add: process_readings_def Nil and_then_def)
next
  case (Cons x xs)
  have "body \<noteq> []" using assms(2) by auto
  then have "data_section ''readings'' api_response = Inr (Some (JArr rs))"
    by (simp add: data_section_def assms Cons and_then_def py_get_def)
  then show ?thesis by (simp add: process_readings_def and_then_def Let_def)
qed

lemma process_readings_rows:
  assumes "well_formed_readings conv api_response"
  shows "\<exists>tbl. process_readings conv fmt info api_response = Inr tbl
     \<and> length tbl = value_count api_response
     \<and> length (filter (\<lambda>r. timestamp r \<noteq> None) tbl) = parsed_value_count conv api_response"
proof -
  from assms obtain body where api: "api_response = JObj body"
    by (cases api_response) (simp_all add: well_formed_readings_def)
  from assms api obtain v where v: "map_of body ''data'' = Some v"
    by (cases "map_of body ''data''") (simp_all add: well_formed_readings_def)
  from assms api v obtain d where d: "map_of body ''data'' = Some (JObj d)"
    by (cases v) (simp_all add: well_formed_readings_def)
  from assms api d obtain w where w: "map_of d ''readings'' = Some w"
    by (cases "map_of d ''readings''") (simp_all add: well_formed_readings_def)
  from assms api d w obtain rs where rs: "map_of d ''readings'' = Some (JArr rs)"
    by (cases w) (simp_all add: well_formed_readings_def)
  from assms api d rs have wf: "list_all (well_formed_bucket conv) rs"
    and col: "timestamp_column conv api_response = []
              \<or> datetime_column (timestamp_column conv api_response)"
    by (simp_all add: well_formed_readings_def)
  have pr: "payload_readings api_response = rs"
    by (simp add: payload_readings_def api d rs)
  from traverse_bucket_rows[OF wf, of fmt info] obtain tbls where
    t: "traverse (bucket_rows conv fmt info) rs = Inr tbls"
    and ts0: "map timestamp (concat tbls) = timestamp_column conv api_response"
    by (auto simp: timestamp_column_def pr)
  define pd where "pd = concat tbls"
  have ts: "map timestamp pd = timestamp_column conv api_response"
    using ts0 by (simp add: pd_def)
  have len: "length pd = value_count api_response"
    using arg_cong [OF ts, of length]
    by (simp add: timestamp_column_def value_count_def pr length_concat comp_def)
  have cnt: "length (filter (\<lambda>t. column_value t \<noteq> None) (map timestamp pd))
             = parsed_value_count conv api_response"
    unfolding ts timestamp_column_def parsed_value_count_def pr by (rule count_parsed_values)
  have run: "process_readings conv fmt info api_response =
       (if pd = [] then Inr []
        else if datetime_column (map timestamp pd) then Inr (map with_hour_and_date pd)
        else Inl AttributeError)"
    unfolding readings_section [OF api d rs] t pd_def by (simp add: and_then_def)
  show ?thesis
  proof (cases "pd = []")
    case True
    with len cnt run show ?thesis by simp
  next
    case False
    with ts col have "datetime_column (map timestamp pd)" by auto
    with False run have "process_readings conv fmt info api_response = Inr (map with_hour_and_date pd)"
      by simp
    moreover have "length (map with_hour_and_date pd) = value_count api_response"
      using len by simp
    moreover have "length (filter (\<lambda>r. timestamp r \<noteq> None) (map with_hour_and_date pd))
        = parsed_value_count conv api_response"
      unfolding count_dated_rows by (rule cnt)
    ultimately show ?thesis by blast
  qed
qed

text \<open>
  C1 (as amended). \<open>process_readings\<close> has no error count and drops nothing. On a
  payload whose buckets are objects carrying lists of per-station objects, in which the
  timestamp of every bucket that carries a value is absent or converted by pandas, and
  whose converted timestamps form a datetime column (they all have the same time zone, and
  they are not all \<open>None\<close>), it returns a table with one row for every per-station value
  of every bucket, whether the bucket's timestamp parsed or not; the rows with a timestamp
  other than \<open>NaT\<close> are as many as the values whose bucket timestamp parsed.
\<close>

theorem process_readings_keeps_every_value:
  assumes "well_formed_readings conv api_response"
  shows "\<exists>tbl. process_readings conv fmt info api_response = Inr tbl
     \<and> length tbl = value_count api_response
     \<and> length (filter (\<lambda>r. timestamp r \<noteq> None) tbl) = parsed_value_count conv api_response"
  using assms by (rule process_readings_rows)

theorem process_readings_keeps_every_value_witness:
  "well_formed_readings example_conv payload_two_buckets
   \<and> (\<exists>tbl. process_readings example_conv example_fmt Map.empty payload_two_buckets = Inr tbl
        \<and> length tbl = 3 \<and> length (filter (\<lambda>r. timestamp r \<noteq> None) tbl) = 2)"
proof -
  have wf: "well_formed_readings example_conv payload_two_buckets"
    by (simp add: well_formed_readings_def payload_two_buckets_def well_formed_bucket_def
        well_formed_point_def py_get_def converts_def to_datetime_def example_conv_def
        bucket_timestamp_def timestamp_column_def payload_readings_def bucket_points_def
        converted_def datetime_column_def)
  have v: "value_count payload_two_buckets = 3"
    by (simp add: value_count_def payload_two_buckets_def payload_readings_def bucket_points_def
        py_get_def)
  have p: "parsed_value_count example_conv payload_two_buckets = 2"
    by (simp add: parsed_value_count_def payload_two_buckets_def payload_readings_def
        bucket_points_def bucket_timestamp_def parsed_def py_get_def to_datetime_def example_conv_def)
  show ?thesis
    using process_readings_keeps_every_value [OF wf, of example_fmt Map.empty] wf v p by simp
qed

text \<open>
  C1 (as stated) fails: a bucket without a timestamp is not dropped. Its value is kept as a
  row whose timestamp is \<open>NaT\<close>, so the table has one row although no value of the payload
  has a timestamp that parsed.
\<close>

theorem process_readings_missing_timestamp_retained:
  "process_readings example_conv example_fmt Map.empty payload_without_timestamp =
     Inr [\<lparr>timestamp = None, station_id = JStr ''S1'', station_name = JStr ''Station_S1'',
           latitude = JNum 0, longitude = JNum 0, rainfall_mm = JNum 5, hour = None,
           date = None\<rparr>]
   \<and> parsed_value_count example_conv payload_without_timestamp = 0"
  by (simp add: process_readings_def payload_without_timestamp_def data_section_def and_then_def
      py_get_def bucket_rows_def point_row_def to_datetime_def station_label_def
      parsed_value_count_def payload_readings_def bucket_timestamp_def bucket_points_def parsed_def
      datetime_column_def with_hour_and_date_def)

text \<open>
  Timestamps that pandas converts one by one need not form a datetime column: with one
  timestamp without time zone and one with an offset, the accessor \<open>.dt\<close> raises after
  the loops and no table is returned.
\<close>

lemma process_readings_mixed_offsets_raise:
  "process_readings example_conv example_fmt Map.empty payload_mixed_offsets = Inl AttributeError"
  by (simp add: process_readings_def payload_mixed_offsets_def data_section_def and_then_def
      py_get_def bucket_rows_def point_row_def to_datetime_def example_conv_def
      datetime_column_def Let_def)

section \<open>Entries of the table that \<open>process_stations\<close> fills\<close>

lemma store_station_ok:
  assumes "well_formed_station station"
  shows "\<exists>k r. py_key (station_identifier station) = Inr k
          \<and> store_station fmt info station = Inr (info(k \<mapsto> r))"
proof -
  from assms obtain s where s: "station = JObj s"
    by (cases station) (simp_all add: well_formed_station_def)
  from assms s obtain l where l: "station_location station = JObj l"
    by (cases "station_location station") (simp_all add: well_formed_station_def)
  from assms s l obtain k where k: "py_key (station_identifier station) = Inr k"
    by (cases "py_key (station_identifier station)") (simp_all add: well_formed_station_def)
  have loc: "(case map_of s ''labelLocation'' of
                    Some v \<Rightarrow> v
                  | None \<Rightarrow>
                      (case map_of s ''location'' of
                         Some v \<Rightarrow> v
                       | None \<Rightarrow>
                           (case map_of s ''coordinates'' of
                              Some v \<Rightarrow> v
                            | None \<Rightarrow> JObj []))) = JObj l"
    using l by (simp add: station_location_def s py_get_def)
  have "store_station fmt info station = Inr (info(k \<mapsto>
      \<lparr>info_name = py_get s ''name'' (station_label fmt (station_identifier station)),
       info_latitude = py_get l ''latitude'' (py_get l ''lat'' (JNum 0)),
       info_longitude = py_get l ''longitude'' (py_get l ''lng'' (py_get l ''lon'' (JNum 0)))\<rparr>))"
    using k by (simp add: store_station_def s loc and_then_def Let_def station_identifier_def)
  with k show ?thesis by blast
qed

lemma store_station_keeps:
  "store_station fmt info station = Inr info' \<Longrightarrow> info k \<noteq> None \<Longrightarrow> info' k \<noteq> None"
  by (auto simp: store_station_def and_then_def Let_def split: json.splits sum.splits if_splits)

lemma stations_loop_keeps:
  "info k \<noteq> None \<Longrightarrow> snd (stations_loop fmt info entries) k \<noteq> None"
proof (induction entries arbitrary: info)
  case Nil
  then show ?case by simp
next
  case (Cons station rest)
  show ?case
  proof (cases "store_station fmt info station")
    case (Inl e)
    with Cons.prems show ?thesis by simp
  next
    case (Inr info')
    with Cons.prems have "info' k \<noteq> None" using store_station_keeps by blast
    with Cons.IH Inr show ?thesis by simp
  qed
qed

lemma stations_loop_ok:
  assumes "list_all well_formed_station ss"
  shows "fst (stations_loop fmt info ss) = None
     \<and> (\<forall>s \<in> set ss. \<exists>k. py_key (station_identifier s) = Inr k
            \<and> snd (stations_loop fmt info ss) k \<noteq> None)"
  using assms
proof (induction ss arbitrary: info)
  case Nil
  show ?case by simp
next
  case (Cons station rest)
  from Cons.prems have "well_formed_station station" by simp
  from store_station_ok[OF this, of fmt info] obtain k r where
    k: "py_key (station_identifier station) = Inr k"
    and st: "store_station fmt info station = Inr (info(k \<mapsto> r))" by blast
  from Cons.prems have rest: "list_all well_formed_station rest" by simp
  define info1 where "info1 = info(k \<mapsto> r)"
  have step: "stations_loop fmt info (station # rest) = stations_loop fmt info1 rest"
    using st by (simp add: info1_def)
  have "info1 k \<noteq> None" by (simp add: info1_def)
  then have "snd (stations_loop fmt info1 rest) k \<noteq> None"
    by (rule stations_loop_keeps)
  with Cons.IH[OF rest, of info1] k show ?case
    unfolding step by auto
qed

lemma process_stations_state:
  "snd (process_stations fmt info api_response) = info
   \<or> (\<exists>entries. snd (process_stations fmt info api_response) = snd (stations_loop fmt info entries))"
  by (auto simp: process_stations_def split: sum.splits option.splits prod.splits)
     (metis snd_conv)+

lemma process_stations_keeps:
  assumes "info k \<noteq> None"
  shows "snd (process_stations fmt info api_response) k \<noteq> None"
proof -
  from process_stations_state [of fmt info api_response]
  show ?thesis
  proof
    assume "snd (process_stations fmt info api_response) = info"
    with assms show ?thesis by simp
  next
    assume "\<exists>entries. snd (process_stations fmt info api_response) = snd (stations_loop fmt info entries)"
    then obtain entries where
      "snd (process_stations fmt info api_response) = snd (stations_loop fmt info entries)" by blast
    with assms stations_loop_keeps [of info k fmt entries] show ?thesis by simp
  qed
qed

lemma process_stations_ok:
  assumes "well_formed_stations api_response"
  shows "fst (process_stations fmt info api_response) = Inr (payload_stations api_response)
     \<and> (\<forall>s \<in> set (payload_stations api_response). \<exists>k. py_key (station_identifier s) = Inr k
            \<and> snd (process_stations fmt info api_response) k \<noteq> None)"
proof -
  from assms obtain body where api: "api_response = JObj body"
    by (cases api_response) (simp_all add: well_formed_stations_def)
  from assms api obtain v where v: "map_of body ''data'' = Some v"
    by (cases "map_of body ''data''") (simp_all add: well_formed_stations_def)
  from assms api v obtain d where d: "map_of body ''data'' = Some (JObj d)"
    by (cases v) (simp_all add: well_formed_stations_def)
  from assms api d obtain w where w: "map_of d ''stations'' = Some w"
    by (cases "map_of d ''stations''") (simp_all add: well_formed_stations_def)
  from assms api d w obtain ss where ss: "map_of d ''stations'' = Some (JArr ss)"
    by (cases w) (simp_all add: well_formed_stations_def)
  from assms api d ss have wf: "list_all well_formed_station ss"
    by (simp add: well_formed_stations_def)
  have ps: "payload_stations api_response = ss"
    by (simp add: payload_stations_def api d ss)
  have body: "body \<noteq> []" using d by auto
  show ?thesis
  proof (cases ss)
    case Nil
    then have "data_section ''stations'' api_response = Inr None"
      using body by (simp add: data_section_def api d ss and_then_def py_get_def)
    then show ?thesis by (simp add: process_stations_def ps Nil)
  next
    case (Cons s rest)
    then have ds: "data_section ''stations'' api_response = Inr (Some (JArr ss))"
      using body by (simp add: data_section_def api d ss and_then_def py_get_def)
    obtain e info' where loop: "stations_loop fmt info ss = (e, info')"
      by (cases "stations_loop fmt info ss")
    with stations_loop_ok[OF wf, of fmt info] have e: "e = None"
      and all: "\<forall>s \<in> set ss. \<exists>k. py_key (station_identifier s) = Inr k \<and> info' k \<noteq> None"
      by auto
    have i0: "py_item0 (JArr ss) = Inr s" using Cons by simp
    have "process_stations fmt info api_response = (Inr ss, info')"
      by (simp add: process_stations_def ds loop e i0)
    with all show ?thesis by (simp add: ps)
  qed
qed

lemma store_station_by_parts:
  "store_station fmt info (JObj s) =
     (let sid = py_get s ''id'' (py_get s ''stationId'' (JStr ''unknown''));
          loc = py_get s ''labelLocation'' (py_get s ''location'' (py_get s ''coordinates'' (JObj [])));
          name = py_get s ''name'' (station_label fmt sid)
      in and_then (dict_get loc ''lat'' (JNum 0)) (\<lambda>lat.
         and_then (dict_get loc ''latitude'' lat) (\<lambda>latitude.
         and_then (dict_get loc ''lon'' (JNum 0)) (\<lambda>lon.
         and_then (dict_get loc ''lng'' lon) (\<lambda>lng.
         and_then (dict_get loc ''longitude'' lng) (\<lambda>longitude.
         and_then (py_key sid) (\<lambda>k.
           Inr (info(k \<mapsto>
             \<lparr>info_name = name, info_latitude = latitude, info_longitude = longitude\<rparr>)))))))))"
  by (simp add: store_station_def py_get_def Let_def split: option.splits)





section \<open>Fields of the rows that \<open>process_readings\<close> builds\<close>

lemma point_row_fields:
  assumes "point_row conv fmt info ts p = Inr r"
  shows "station_id r = point_station p" and "rainfall_mm r = point_rainfall p"
    and "joined fmt info (with_hour_and_date r)"
  using assms
  by (auto simp: point_row_def point_station_def point_rainfall_def entry_fields_def joined_def
      with_hour_and_date_def and_then_def Let_def split: json.splits sum.splits option.splits)





lemma traverse_all:
  assumes "traverse f xs = Inr ys" and "\<And>x y. f x = Inr y \<Longrightarrow> P y"
  shows "\<forall>y \<in> set ys. P y"
  using assms(1)
proof (induction xs arbitrary: ys)
  case Nil
  then show ?case by simp
next
  case (Cons x xs)
  then show ?case using assms(2) by (auto split: sum.splits)
qed

lemma bucket_rows_joined:
  assumes "bucket_rows conv fmt info b = Inr tbl"
  shows "\<forall>r \<in> set tbl. joined fmt info (with_hour_and_date r)"
proof -
  from assms obtain ts ps where "traverse (point_row conv fmt info ts) ps = Inr tbl"
    by (auto simp: bucket_rows_def and_then_def Let_def split: json.splits sum.splits)
  then show ?thesis
    by (rule traverse_all) (rule point_row_fields)
qed

lemma process_readings_joined:
  assumes "process_readings conv fmt info api_response = Inr tbl"
  shows "\<forall>r \<in> set tbl. joined fmt info r"
proof (cases "data_section ''readings'' api_response")
  case (Inl e)
  with assms show ?thesis by (simp add: process_readings_def)
next
  case (Inr sec)
  show ?thesis
  proof (cases sec)
    case None
    with Inr assms show ?thesis by (simp add: process_readings_def)
  next
    case (Some readings)
    with Inr assms obtain buckets tbls where
      t: "traverse (bucket_rows conv fmt info) buckets = Inr tbls"
      and r: "tbl = [] \<or> tbl = map with_hour_and_date (concat tbls)"
      by (auto simp: process_readings_def and_then_def Let_def split: sum.splits if_splits)
    have "\<forall>rs \<in> set tbls. \<forall>r \<in> set rs. joined fmt info (with_hour_and_date r)"
      using t by (rule traverse_all) (rule bucket_rows_joined)
    with r show ?thesis by auto
  qed
qed






section \<open>The station table across calls\<close>

lemma stations_info_after_keeps:
  "info k \<noteq> None \<Longrightarrow> stations_info_after fmt info calls k \<noteq> None"
proof (induction calls arbitrary: info)
  case Nil
  then show ?case by simp
next
  case (Cons c calls)
  show ?case
  proof (cases c)
    case (ProcessStations p)
    from Cons.prems have "snd (process_stations fmt info p) k \<noteq> None"
      by (rule process_stations_keeps)
    then show ?thesis using Cons.IH ProcessStations by simp
  next
    case (ProcessReadings p)
    then show ?thesis using Cons by simp
  qed
qed

lemma stations_info_after_has:
  assumes "ProcessStations p \<in> set calls" and "well_formed_stations p"
    and "s \<in> set (payload_stations p)"
  shows "\<exists>k. py_key (station_identifier s) = Inr k \<and> stations_info_after fmt info calls k \<noteq> None"
  using assms(1)
proof (induction calls arbitrary: info)
  case Nil
  then show ?case by simp
next
  case (Cons c calls)
  show ?case
  proof (cases "c = ProcessStations p")
    case True
    from process_stations_ok [OF assms(2), of fmt info] assms(3)
    obtain k where k: "py_key (station_identifier s) = Inr k"
      and "snd (process_stations fmt info p) k \<noteq> None" by blast
    then have "stations_info_after fmt (snd (process_stations fmt info p)) calls k \<noteq> None"
      by (simp add: stations_info_after_keeps)
    with k True show ?thesis by auto
  next
    case False
    with Cons.prems have "ProcessStations p \<in> set calls" by simp
    then show ?thesis using Cons.IH by (cases c) simp_all
  qed
qed

text \<open>
  C10. \<open>self.stations_info\<close> is never cleared. After any sequence of calls on one
  instance, every station of every earlier \<open>process_stations\<close> call (on a payload whose
  station entries it can process) is still in the table, and \<open>process_readings\<close> joins
  each row against that accumulated table: a row of any later payload whose station
  identifier is the key of such an earlier station carries the name and coordinates stored
  under that key, whether or not the later payload lists the station.
\<close>

theorem later_readings_join_earlier_stations:
  assumes "ProcessStations p \<in> set calls" and "well_formed_stations p"
    and "s \<in> set (payload_stations p)"
    and "process_readings conv fmt (stations_info_after fmt Map.empty calls) q = Inr tbl"
    and "r \<in> set tbl"
    and "py_key (station_id r) = py_key (station_identifier s)"
  shows "\<exists>k si. py_key (station_identifier s) = Inr k
           \<and> stations_info_after fmt Map.empty calls k = Some si
           \<and> station_name r = info_name si \<and> latitude r = info_latitude si
           \<and> longitude r = info_longitude si"
proof -
  from stations_info_after_has [OF assms(1-3), of fmt Map.empty]
  obtain k si where k: "py_key (station_identifier s) = Inr k"
    and si: "stations_info_after fmt Map.empty calls k = Some si" by auto
  from process_readings_joined [OF assms(4)] assms(5)
  have "joined fmt (stations_info_after fmt Map.empty calls) r" by blast
  with k si assms(6) show ?thesis by (simp add: joined_def)
qed

theorem later_readings_join_earlier_stations_witness:
  "ProcessStations payload_two_buckets \<in> set
      [ProcessStations payload_two_buckets, ProcessReadings payload_two_buckets,
       ProcessStations payload_readings_only]
   \<and> well_formed_stations payload_two_buckets
   \<and> station_S1 \<in> set (payload_stations payload_two_buckets)
   \<and> process_readings example_conv example_fmt
        (stations_info_after example_fmt Map.empty
          [ProcessStations payload_two_buckets, ProcessReadings payload_two_buckets,
           ProcessStations payload_readings_only])
        payload_readings_only = Inr [row_S1_later]
   \<and> py_key (station_id row_S1_later) = py_key (station_identifier station_S1)
   \<and> (\<exists>k si. py_key (station_identifier station_S1) = Inr k
           \<and> stations_info_after example_fmt Map.empty
                [ProcessStations payload_two_buckets, ProcessReadings payload_two_buckets,
                 ProcessStations payload_readings_only] k = Some si
           \<and> station_name row_S1_later = info_name si)"
proof -
  let ?calls = "[ProcessStations payload_two_buckets, ProcessReadings payload_two_buckets,
       ProcessStations payload_readings_only]"
  have h1: "ProcessStations payload_two_buckets \<in> set ?calls" by simp
  have h2: "well_formed_stations payload_two_buckets"
    by (simp add: well_formed_stations_def payload_two_buckets_def well_formed_station_def
        station_location_def station_identifier_def py_get_def)
  have h3: "station_S1 \<in> set (payload_stations payload_two_buckets)"
    by (simp add: payload_stations_def payload_two_buckets_def station_S1_def)
  have st: "stations_info_after example_fmt Map.empty ?calls =
     [JStr ''S1'' \<mapsto> \<lparr>info_name = JStr ''Alpha'', info_latitude = JNum 1.3,
                        info_longitude = JNum 103.8\<rparr>,
      JStr ''S2'' \<mapsto> \<lparr>info_name = JStr ''Beta'', info_latitude = JNum 1.35,
                        info_longitude = JNum 103.82\<rparr>]"
    by (simp add: process_stations_def payload_two_buckets_def payload_readings_only_def
        data_section_def and_then_def py_get_def store_station_def)
  have h4: "process_readings example_conv example_fmt (stations_info_after example_fmt Map.empty ?calls)
        payload_readings_only = Inr [row_S1_later]"
    unfolding st
    by (simp add: process_readings_def payload_readings_only_def data_section_def and_then_def
        py_get_def bucket_rows_def point_row_def to_datetime_def example_conv_def row_S1_later_def
        datetime_column_def with_hour_and_date_def Let_def)
  have h5: "row_S1_later \<in> set [row_S1_later]" by simp
  have h6: "py_key (station_id row_S1_later) = py_key (station_identifier station_S1)"
    by (simp add: row_S1_later_def station_identifier_def station_S1_def py_get_def)
  from later_readings_join_earlier_stations [OF h1 h2 h3 h4 h5 h6] h1 h2 h3 h4 h6
  show ?thesis by blast
qed

section \<open>Field names\<close>

lemma map_of_field:
  "map_of (field k v @ rest) k' = (if k' = k \<and> v \<noteq> None then v else map_of rest k')"
  by (cases v) (simp_all add: field_def)

lemma py_get_field:
  "py_get (field k v @ rest) k' d =
     (if k' = k \<and> v \<noteq> None then the v else py_get rest k' d)"
  by (cases v) (simp_all add: field_def py_get_def)

lemma py_get_Cons:
  "py_get ((k, v) # rest) k' d = (if k' = k then v else py_get rest k' d)"
  by (simp add: py_get_def)

lemma py_get_unused: "map_of kvs k = None \<Longrightarrow> py_get kvs k d = d"
  by (simp add: py_get_def)

lemma latitude_any_name:
  assumes "a = ''latitude'' \<or> a = ''lat''"
    and "b = ''longitude'' \<or> b = ''lng'' \<or> b = ''lon''"
    and "map_of other ''latitude'' = None" and "map_of other ''lat'' = None"
  shows "py_get (field a x @ field b y @ other) ''latitude''
           (py_get (field a x @ field b y @ other) ''lat'' (JNum 0))
         = logical_coordinate x"
  using assms
  by (cases x; cases y)
     (auto simp: py_get_field py_get_unused logical_coordinate_def)

lemma longitude_any_name:
  assumes "a = ''latitude'' \<or> a = ''lat''"
    and "b = ''longitude'' \<or> b = ''lng'' \<or> b = ''lon''"
    and "map_of other ''longitude'' = None" and "map_of other ''lng'' = None"
    and "map_of other ''lon'' = None"
  shows "py_get (field a x @ field b y @ other) ''longitude''
           (py_get (field a x @ field b y @ other) ''lng''
              (py_get (field a x @ field b y @ other) ''lon'' (JNum 0)))
         = logical_coordinate y"
  using assms
  by (cases x; cases y)
     (auto simp: py_get_field py_get_unused logical_coordinate_def)

lemma station_id_any_name:
  assumes "a = ''id'' \<or> a = ''stationId''"
    and "c = ''labelLocation'' \<or> c = ''location'' \<or> c = ''coordinates''"
    and "map_of other ''id'' = None" and "map_of other ''stationId'' = None"
  shows "py_get (field a x @ field c z @ other) ''id''
           (py_get (field a x @ field c z @ other) ''stationId'' (JStr ''unknown''))
         = (case x of None \<Rightarrow> JStr ''unknown'' | Some v \<Rightarrow> v)"
  using assms
  by (cases x; cases z) (auto simp: py_get_field py_get_unused)

lemma station_location_any_name:
  assumes "a = ''id'' \<or> a = ''stationId''"
    and "c = ''labelLocation'' \<or> c = ''location'' \<or> c = ''coordinates''"
    and "map_of other ''labelLocation'' = None" and "map_of other ''location'' = None"
    and "map_of other ''coordinates'' = None"
  shows "py_get (field a x @ field c z @ other) ''labelLocation''
           (py_get (field a x @ field c z @ other) ''location''
              (py_get (field a x @ field c z @ other) ''coordinates'' (JObj [])))
         = (case z of None \<Rightarrow> JObj [] | Some v \<Rightarrow> v)"
  using assms
  by (cases x; cases z) (auto simp: py_get_field py_get_unused)

lemma station_name_any_name:
  assumes "a = ''id'' \<or> a = ''stationId''"
    and "c = ''labelLocation'' \<or> c = ''location'' \<or> c = ''coordinates''"
  shows "py_get (field a x @ field c z @ other) ''name'' d = py_get other ''name'' d"
  using assms
  by (cases x; cases z) (auto simp: py_get_field)

lemma point_station_any_name:
  assumes "a = ''stationId'' \<or> a = ''station_id'' \<or> a = ''id''"
    and "b = ''value'' \<or> b = ''rainfall''"
    and "map_of other ''stationId'' = None" and "map_of other ''station_id'' = None"
    and "map_of other ''id'' = None"
  shows "py_get (field a x @ field b y @ other) ''stationId''
           (py_get (field a x @ field b y @ other) ''station_id''
              (py_get (field a x @ field b y @ other) ''id'' (JStr ''unknown'')))
         = (case x of None \<Rightarrow> JStr ''unknown'' | Some v \<Rightarrow> v)"
  using assms
  by (cases x; cases y) (auto simp: py_get_field py_get_unused)

lemma point_value_any_name:
  assumes "a = ''stationId'' \<or> a = ''station_id'' \<or> a = ''id''"
    and "b = ''value'' \<or> b = ''rainfall''"
    and "map_of other ''value'' = None" and "map_of other ''rainfall'' = None"
  shows "py_get (field a x @ field b y @ other) ''value''
           (py_get (field a x @ field b y @ other) ''rainfall'' (JNum 0))
         = logical_coordinate y"
  using assms
  by (cases x; cases y) (auto simp: py_get_field py_get_unused logical_coordinate_def)

lemma bucket_timestamp_any_name:
  assumes "a = ''timestamp'' \<or> a = ''time''"
    and "map_of other ''timestamp'' = None" and "map_of other ''time'' = None"
  shows "py_get (field a x @ (''data'', v) # other) ''timestamp''
           (py_get (field a x @ (''data'', v) # other) ''time'' (JStr []))
         = (case x of None \<Rightarrow> JStr [] | Some t \<Rightarrow> t)"
  using assms
  by (cases x) (auto simp: py_get_field py_get_unused py_get_Cons)

lemma bucket_data_any_name:
  assumes "a = ''timestamp'' \<or> a = ''time''"
  shows "py_get (field a x @ (''data'', v) # other) ''data'' d = v"
  using assms
  by (cases x) (auto simp: py_get_field py_get_Cons)


lemma store_station_render:
  assumes "station_names n" and "location_names n" and "plain_station s"
  shows "store_station fmt info (render_station n s) = store_logical_station fmt info s"
proof -
  define a where "a = station_id_key n"
  define c where "c = location_key n"
  define x where "x = st_identifier s"
  define z where "z = map_option (render_location n) (st_location s)"
  define other where "other = st_other s"
  have a: "a = ''id'' \<or> a = ''stationId''"
    and c: "c = ''labelLocation'' \<or> c = ''location'' \<or> c = ''coordinates''"
    using assms(1) by (simp_all add: station_names_def a_def c_def)
  have u: "map_of other ''id'' = None" "map_of other ''stationId'' = None"
    "map_of other ''labelLocation'' = None" "map_of other ''location'' = None"
    "map_of other ''coordinates'' = None"
    using assms(3) by (simp_all add: plain_station_def unused_def other_def)
  have r: "render_station n s = JObj (field a x @ field c z @ other)"
    by (simp add: render_station_def a_def c_def x_def z_def other_def)
  have st: "store_station fmt info (render_station n s) =
     (let sid = (case x of None \<Rightarrow> JStr ''unknown'' | Some v \<Rightarrow> v);
          loc = (case z of None \<Rightarrow> JObj [] | Some v \<Rightarrow> v);
          name = py_get other ''name'' (station_label fmt sid)
      in and_then (dict_get loc ''lat'' (JNum 0)) (\<lambda>lat.
         and_then (dict_get loc ''latitude'' lat) (\<lambda>latitude.
         and_then (dict_get loc ''lon'' (JNum 0)) (\<lambda>lon.
         and_then (dict_get loc ''lng'' lon) (\<lambda>lng.
         and_then (dict_get loc ''longitude'' lng) (\<lambda>longitude.
         and_then (py_key sid) (\<lambda>k.
           Inr (info(k \<mapsto>
             \<lparr>info_name = name, info_latitude = latitude, info_longitude = longitude\<rparr>)))))))))"
    unfolding r store_station_by_parts
      station_id_any_name [OF a c u(1,2)] station_location_any_name [OF a c u(3,4,5)]
      station_name_any_name [OF a c]
    by (rule refl)
  show ?thesis
  proof (cases "st_location s")
    case None
    then have "z = None" by (simp add: z_def)
    then show ?thesis
      unfolding st
      by (simp add: store_logical_station_def Let_def and_then_def py_get_def None x_def other_def)
  next
    case (Some l)
    define la where "la = latitude_key n"
    define lo where "lo = longitude_key n"
    define y1 where "y1 = loc_latitude l"
    define y2 where "y2 = loc_longitude l"
    define lother where "lother = loc_other l"
    have la: "la = ''latitude'' \<or> la = ''lat''"
      and lo: "lo = ''longitude'' \<or> lo = ''lng'' \<or> lo = ''lon''"
      using assms(2) by (simp_all add: location_names_def la_def lo_def)
    from assms(3) Some have "plain_location l" by (simp add: plain_station_def)
    then have v: "map_of lother ''latitude'' = None" "map_of lother ''lat'' = None"
      "map_of lother ''longitude'' = None" "map_of lother ''lng'' = None"
      "map_of lother ''lon'' = None"
      by (simp_all add: plain_location_def unused_def lother_def)
    have z: "z = Some (JObj (field la y1 @ field lo y2 @ lother))"
      by (simp add: z_def Some render_location_def la_def lo_def y1_def y2_def lother_def)
    show ?thesis
      unfolding st z
      by (simp add: Let_def and_then_def latitude_any_name [OF la lo v(1,2)]
          longitude_any_name [OF la lo v(3,4,5)] store_logical_station_def Some
          x_def other_def y1_def y2_def)
  qed
qed


lemma point_row_by_parts:
  assumes "py_get p ''stationId'' (py_get p ''station_id'' (py_get p ''id'' (JStr ''unknown'')))
           = py_get q ''stationId'' (py_get q ''station_id'' (py_get q ''id'' (JStr ''unknown'')))"
    and "py_get p ''value'' (py_get p ''rainfall'' (JNum 0))
           = py_get q ''value'' (py_get q ''rainfall'' (JNum 0))"
  shows "point_row conv fmt info ts (JObj p) = point_row conv fmt info ts (JObj q)"
  using assms by (simp add: point_row_def)

lemma point_row_render:
  assumes "point_names a" and "point_names b" and "plain_point p"
  shows "point_row conv fmt info ts (render_point a p) = point_row conv fmt info ts (render_point b p)"
proof -
  have a: "reading_station_key a = ''stationId'' \<or> reading_station_key a = ''station_id''
           \<or> reading_station_key a = ''id''"
      "value_key a = ''value'' \<or> value_key a = ''rainfall''"
    using assms(1) by (simp_all add: point_names_def)
  have b: "reading_station_key b = ''stationId'' \<or> reading_station_key b = ''station_id''
           \<or> reading_station_key b = ''id''"
      "value_key b = ''value'' \<or> value_key b = ''rainfall''"
    using assms(2) by (simp_all add: point_names_def)
  have u: "map_of (pt_other p) ''stationId'' = None" "map_of (pt_other p) ''station_id'' = None"
     "map_of (pt_other p) ''id'' = None" "map_of (pt_other p) ''value'' = None"
     "map_of (pt_other p) ''rainfall'' = None"
    using assms(3) by (simp_all add: plain_point_def unused_def)
  show ?thesis
    unfolding render_point_def
    by (rule point_row_by_parts)
       (simp_all only: point_station_any_name [OF a u(1,2,3)] point_station_any_name [OF b u(1,2,3)]
          point_value_any_name [OF a u(4,5)] point_value_any_name [OF b u(4,5)])
qed

lemma traverse_map_cong:
  "(\<And>x. x \<in> set xs \<Longrightarrow> f (g x) = f (h x)) \<Longrightarrow> traverse f (map g xs) = traverse f (map h xs)"
proof (induction xs)
  case Nil
  show ?case by simp
next
  case (Cons x xs)
  have "f (g x) = f (h x)" using Cons.prems by simp
  moreover have "traverse f (map g xs) = traverse f (map h xs)"
    using Cons by simp
  ultimately show ?case by (simp split: sum.splits)
qed

lemma bucket_rows_by_parts:
  "bucket_rows conv fmt info (JObj r) =
     and_then (py_len (py_get r ''data'' (JArr []))) (\<lambda>n.
       and_then (py_iter (py_get r ''data'' (JArr []))) (\<lambda>points.
         traverse (point_row conv fmt info
           (py_get r ''timestamp'' (py_get r ''time'' (JStr [])))) points))"
  by (simp add: bucket_rows_def Let_def)

lemma bucket_rows_render:
  assumes "bucket_names a" and "bucket_names b" and "point_names a" and "point_names b"
    and "plain_bucket k"
  shows "bucket_rows conv fmt info (render_bucket a k) = bucket_rows conv fmt info (render_bucket b k)"
proof -
  have a: "timestamp_key a = ''timestamp'' \<or> timestamp_key a = ''time''"
    using assms(1) by (simp add: bucket_names_def)
  have b: "timestamp_key b = ''timestamp'' \<or> timestamp_key b = ''time''"
    using assms(2) by (simp add: bucket_names_def)
  have u: "map_of (bk_other k) ''timestamp'' = None" "map_of (bk_other k) ''time'' = None"
    using assms(5) by (simp_all add: plain_bucket_def unused_def)
  have pts: "\<And>p. p \<in> set (bk_points k) \<Longrightarrow> plain_point p"
    using assms(5) by (simp add: plain_bucket_def list_all_iff)
  have t: "\<And>ts. traverse (point_row conv fmt info ts) (map (render_point a) (bk_points k))
        = traverse (point_row conv fmt info ts) (map (render_point b) (bk_points k))"
    by (rule traverse_map_cong) (rule point_row_render [OF assms(3,4) pts])
  show ?thesis
    unfolding render_bucket_def bucket_rows_by_parts
      bucket_timestamp_any_name [OF a u] bucket_timestamp_any_name [OF b u]
      bucket_data_any_name [OF a] bucket_data_any_name [OF b]
    by (simp add: and_then_def t)
qed

lemma stations_loop_map_cong:
  "(\<And>x i. x \<in> set xs \<Longrightarrow> store_station fmt i (g x) = store_station fmt i (h x))
   \<Longrightarrow> stations_loop fmt info (map g xs) = stations_loop fmt info (map h xs)"
  by (induction xs arbitrary: info) (simp_all split: sum.splits)

lemma process_stations_of_list:
  "process_stations fmt info (JObj [(''data'', JObj [(''stations'', JArr ss), (''readings'', rd)])]) =
     (case stations_loop fmt info ss of
        (Some e, info') \<Rightarrow> (Inl e, info')
      | (None, info') \<Rightarrow> (Inr ss, info'))"
proof (cases ss)
  case Nil
  show ?thesis
    by (simp add: Nil process_stations_def data_section_def and_then_def py_get_def)
next
  case (Cons x xs)
  have "data_section ''stations'' (JObj [(''data'', JObj [(''stations'', JArr ss), (''readings'', rd)])])
        = Inr (Some (JArr ss))"
    by (simp add: Cons data_section_def and_then_def py_get_def)
  moreover have "py_item0 (JArr ss) = Inr x" by (simp add: Cons)
  ultimately show ?thesis
    by (simp add: process_stations_def)
qed

lemma process_readings_of_list:
  "process_readings conv fmt info (JObj [(''data'', JObj [(''stations'', st), (''readings'', JArr rs)])]) =
     and_then (traverse (bucket_rows conv fmt info) rs) (\<lambda>tbls.
       if concat tbls = [] then Inr []
       else if datetime_column (map timestamp (concat tbls))
       then Inr (map with_hour_and_date (concat tbls))
       else Inl AttributeError)"
  by (rule readings_section [where body = "[(''data'', JObj [(''stations'', st), (''readings'', JArr rs)])]"
        and d = "[(''stations'', st), (''readings'', JArr rs)]"]) simp_all

text \<open>
  C7. A payload written under one supported name for each logical field (station
  identifier, location object, latitude, longitude, reading station identifier, rainfall
  value, bucket timestamp) is normalized exactly as the same data written under any other
  supported choice of names: \<open>process_stations\<close> leaves the same station table and ends
  the same way, and \<open>process_readings\<close> returns the same table or raises the same
  exception.
\<close>

theorem normalization_independent_of_names:
  assumes "supported a" and "supported b" and "plain_payload p"
  shows "snd (process_stations fmt info (render a p)) = snd (process_stations fmt info (render b p))
     \<and> map_sum id length (fst (process_stations fmt info (render a p)))
         = map_sum id length (fst (process_stations fmt info (render b p)))
     \<and> process_readings conv fmt info (render a p) = process_readings conv fmt info (render b p)"
proof -
  have st: "\<And>s. s \<in> set (pl_stations p) \<Longrightarrow> plain_station s"
    and bk: "\<And>k. k \<in> set (pl_readings p) \<Longrightarrow> plain_bucket k"
    using assms(3) by (simp_all add: plain_payload_def list_all_iff)
  have a: "station_names a" "location_names a" "point_names a" "bucket_names a"
    using assms(1) by (simp_all add: supported_def)
  have b: "station_names b" "location_names b" "point_names b" "bucket_names b"
    using assms(2) by (simp_all add: supported_def)
  have "\<And>s i. s \<in> set (pl_stations p)
          \<Longrightarrow> store_station fmt i (render_station a s) = store_station fmt i (render_station b s)"
    by (simp add: store_station_render [OF a(1,2) st] store_station_render [OF b(1,2) st])
  then have loop: "stations_loop fmt info (map (render_station a) (pl_stations p))
      = stations_loop fmt info (map (render_station b) (pl_stations p))"
    by (rule stations_loop_map_cong)
  have rd: "traverse (bucket_rows conv fmt info) (map (render_bucket a) (pl_readings p))
      = traverse (bucket_rows conv fmt info) (map (render_bucket b) (pl_readings p))"
    by (rule traverse_map_cong) (rule bucket_rows_render [OF a(4) b(4) a(3) b(3) bk])
  show ?thesis
    by (simp add: render_def process_stations_of_list process_readings_of_list loop rd
        split: prod.splits option.splits)
qed

theorem normalization_independent_of_names_witness:
  "supported primary_names \<and> supported alternate_names \<and> plain_payload logical_example
   \<and> render primary_names logical_example \<noteq> render alternate_names logical_example
   \<and> snd (process_stations example_fmt Map.empty (render primary_names logical_example))
       = snd (process_stations example_fmt Map.empty (render alternate_names logical_example))
   \<and> process_readings example_conv example_fmt Map.empty (render primary_names logical_example)
       = process_readings example_conv example_fmt Map.empty (render alternate_names logical_example)"
proof -
  have h1: "supported primary_names"
    by (simp add: supported_def station_names_def location_names_def point_names_def
        bucket_names_def primary_names_def)
  have h2: "supported alternate_names"
    by (simp add: supported_def station_names_def location_names_def point_names_def
        bucket_names_def alternate_names_def)
  have h3: "plain_payload logical_example"
    by (simp add: plain_payload_def plain_station_def plain_location_def plain_bucket_def
        plain_point_def unused_def logical_example_def)
  have h4: "render primary_names logical_example \<noteq> render alternate_names logical_example"
    by (simp add: render_def render_station_def logical_example_def primary_names_def
        alternate_names_def field_def)
  from normalization_independent_of_names [OF h1 h2 h3, of example_fmt Map.empty example_conv]
    h1 h2 h3 h4
  show ?thesis by blast
qed

section \<open>Aggregations\<close>

lemma series_mean_Some: "xs \<noteq> [] \<Longrightarrow> series_mean xs = Some (mean xs)"
  by (simp add: series_mean_def mean_def)

lemma groupby_keys: "map fst (groupby key xs) = sort (remdups (map key xs))"
  by (simp add: groupby_def comp_def)

lemma groupby_distinct: "distinct (map fst (groupby key xs))"
  by (simp add: groupby_keys)

lemma groupby_sorted: "sorted (map fst (groupby key xs))"
  by (simp add: groupby_keys)

lemma groupby_member:
  "g \<in> set (groupby key xs) \<longleftrightarrow>
     (\<exists>x \<in> set xs. g = (key x, filter (\<lambda>y. key y = key x) xs))"
  by (auto simp: groupby_def)

lemma groupby_nonempty: "g \<in> set (groupby key xs) \<Longrightarrow> snd g \<noteq> []"
  by (auto simp: groupby_member filter_empty_conv)

lemma mask_select: "map fst (filter snd (zip xs (map P xs))) = filter P xs"
  by (induction xs) simp_all

lemma get_monthly_average_rows:
  assumes "rows d \<noteq> []"
  shows "get_monthly_average m y d =
     Some (if month_rows m y d = [] then mean (map rainfall_mm (rows d))
           else mean (map rainfall_mm (month_rows m y d)))"
proof -
  have sel: "map fst (filter snd (zip (rows d)
        (map (\<lambda>r. dt_month (timestamp r) = m \<and> dt_year (timestamp r) = y) (rows d))))
      = month_rows m y d"
    unfolding month_rows_def by (rule mask_select)
  have "get_monthly_average m y d =
     (if month_rows m y d = [] then series_mean (map rainfall_mm (rows d))
      else series_mean (map rainfall_mm (month_rows m y d)))"
    using assms unfolding get_monthly_average_def frame_empty_def Let_def sel by simp
  then show ?thesis using assms by (simp add: series_mean_Some)
qed


text \<open>
  C5. On a table that is not empty, \<open>get_monthly_average\<close> returns the mean rainfall of
  exactly the rows whose timestamp lies in the month and year that \<open>datetime.now()\<close>
  gives at the call; when no row lies in that month, it returns the mean rainfall of the
  whole table.
\<close>

theorem monthly_average_of_current_month:
  assumes "rows d \<noteq> []"
  shows "get_monthly_average current_month current_year d =
     Some (if month_rows current_month current_year d = [] then mean (map rainfall_mm (rows d))
           else mean (map rainfall_mm (month_rows current_month current_year d)))"
  using assms by (rule get_monthly_average_rows)

theorem monthly_average_of_current_month_witness:
  "rows example_table \<noteq> []
   \<and> month_rows 1 2024 example_table = rows example_table
   \<and> get_monthly_average 1 2024 example_table = Some 5
   \<and> month_rows 3 2025 example_table = []
   \<and> get_monthly_average 3 2025 example_table = Some 5"
proof -
  have ne: "rows example_table \<noteq> []" by (simp add: example_table_def)
  have m1: "month_rows 1 2024 example_table = rows example_table"
    by (simp add: month_rows_def example_table_def reading_at_def)
  have m2: "month_rows 3 2025 example_table = []"
    by (simp add: month_rows_def example_table_def reading_at_def)
  have mean: "mean (map rainfall_mm (rows example_table)) = 5"
    by (simp add: mean_def example_table_def reading_at_def)
  from monthly_average_of_current_month [OF ne, of 1 2024]
    monthly_average_of_current_month [OF ne, of 3 2025] ne m1 m2 mean
  show ?thesis by simp
qed

lemma set_nlargest: "set (nlargest n xs) \<subseteq> set xs"
  using set_take_subset [of "nat n" "sort_key (\<lambda>a. - total_rainfall a) xs"]
  by (simp add: nlargest_def)

lemma set_nsmallest: "set (nsmallest n xs) \<subseteq> set xs"
  using set_take_subset [of "nat n" "sort_key total_rainfall xs"]
  by (simp add: nsmallest_def)

lemma station_groups_avg: "a \<in> set (station_groups d) \<Longrightarrow> avg_rainfall a \<noteq> None"
  by (auto simp: station_groups_def station_area_def series_mean_def dest: groupby_nonempty)

lemma nearby_groups_avg:
  "a \<in> set (map nearby_area (groupby key xs)) \<Longrightarrow> avg_rainfall a \<noteq> None"
  by (auto simp: nearby_area_def series_mean_def dest: groupby_nonempty)

lemma top_rainfall_areas_avg:
  assumes "a \<in> set (fst (get_top_rainfall_areas d n g))"
  shows "avg_rainfall a \<noteq> None"
proof (cases "frame_empty d")
  case True
  with assms show ?thesis by (simp add: get_top_rainfall_areas_def)
next
  case False
  show ?thesis
  proof (cases g)
    case True
    with False assms obtain key xs where "a \<in> set (nlargest n (map nearby_area (groupby key xs)))"
      by (auto simp: get_top_rainfall_areas_def Let_def)
    then have "a \<in> set (map nearby_area (groupby key xs))"
      using set_nlargest by blast
    then show ?thesis by (rule nearby_groups_avg)
  next
    case g: False
    with False assms have "a \<in> set (nlargest n (station_groups d))"
      by (simp add: get_top_rainfall_areas_def)
    then have "a \<in> set (station_groups d)" using set_nlargest by blast
    then show ?thesis by (rule station_groups_avg)
  qed
qed

lemma lowest_rainfall_areas_avg:
  assumes "a \<in> set (get_lowest_rainfall_areas d n)"
  shows "avg_rainfall a \<noteq> None"
proof -
  from assms have "a \<in> set (nsmallest n (station_groups d))"
    by (simp add: get_lowest_rainfall_areas_def split: if_splits)
  then have "a \<in> set (station_groups d)" using set_nsmallest by blast
  then show ?thesis by (rule station_groups_avg)
qed

lemma hourly_distribution_avg:
  "h \<in> set (get_hourly_distribution d) \<Longrightarrow> avg_rainfall h \<noteq> None"
  by (auto simp: get_hourly_distribution_def hourly_row_def series_mean_def
      split: if_splits dest: groupby_nonempty)

lemma alert_threshold:
  assumes "rows d \<noteq> []"
  shows "snd (get_alert_areas cm cy d m) =
     Some ((if month_rows cm cy d = [] then mean (map rainfall_mm (rows d))
            else mean (map rainfall_mm (month_rows cm cy d))) * m)"
  using assms
  by (simp add: get_alert_areas_def frame_empty_def Let_def get_monthly_average_rows)

lemma summary_stats_some:
  assumes "rows d \<noteq> []"
  shows "\<exists>s. generate_summary_stats d = Some s
     \<and> stats_avg_rainfall s = Some (mean (map rainfall_mm (rows d)))
     \<and> total_readings s = length (rows d)"
  using assms
  by (cases "rows d") (simp_all add: generate_summary_stats_def series_mean_Some)

lemma mean_zero: "\<forall>x \<in> set xs. x = 0 \<Longrightarrow> mean xs = (0::real)"
proof -
  assume "\<forall>x \<in> set xs. x = 0"
  then have "sum_list xs = 0" by (induction xs) simp_all
  then show ?thesis by (simp add: mean_def)
qed

lemma dry_station_never_exceeds:
  assumes "\<forall>r \<in> set (rows d). rainfall_mm r = 0" and "s \<in> set (station_averages d)"
  shows "exceeding (Some 0) s = None"
proof -
  from assms(2) obtain g where g: "g \<in> set (groupby station_key (rows d))" and s: "s = station_mean g"
    by (auto simp: station_averages_def)
  from g have ne: "snd g \<noteq> []" by (rule groupby_nonempty)
  from g have "set (snd g) \<subseteq> set (rows d)" by (auto simp: groupby_member)
  with assms(1) have "\<forall>x \<in> set (map rainfall_mm (snd g)). x = 0" by auto
  then have "mean (map rainfall_mm (snd g)) = 0" by (rule mean_zero)
  with ne have "avg_rainfall_mm s = Some 0"
    by (simp add: s station_mean_def series_mean_Some)
  then show ?thesis by (simp add: exceeding_def)
qed

lemma dry_table_no_alerts:
  assumes "rows d \<noteq> []" and "\<forall>r \<in> set (rows d). rainfall_mm r = 0"
  shows "get_alert_areas cm cy d m = ([], Some 0)"
proof -
  have all: "mean (map rainfall_mm (rows d)) = 0"
    using assms(2) by (intro mean_zero) auto
  have "set (month_rows cm cy d) \<subseteq> set (rows d)" by (auto simp: month_rows_def)
  with assms(2) have "mean (map rainfall_mm (month_rows cm cy d)) = 0"
    by (intro mean_zero) auto
  with all have avg: "get_monthly_average cm cy d = Some 0"
    by (simp add: get_monthly_average_rows [OF assms(1)])
  have "List.map_filter (exceeding (Some 0)) (station_averages d) = []"
    using dry_station_never_exceeds [OF assms(2)]
    by (simp add: List.map_filter_def filter_empty_conv)
  then show ?thesis
    using assms(1) by (simp add: get_alert_areas_def frame_empty_def Let_def avg)
qed

lemma station_averages_member:
  "s \<in> set (station_averages d) \<longleftrightarrow>
     (\<exists>r \<in> set (rows d). s = station_mean (station_key r, station_rows d r))"
proof
  assume "s \<in> set (station_averages d)"
  then obtain g where "g \<in> set (groupby station_key (rows d))" and s: "s = station_mean g"
    by (auto simp: station_averages_def)
  then obtain x where "x \<in> set (rows d)" and "g = (station_key x, station_rows d x)"
    unfolding groupby_member station_rows_def by blast
  with s show "\<exists>r \<in> set (rows d). s = station_mean (station_key r, station_rows d r)"
    by blast
next
  assume "\<exists>r \<in> set (rows d). s = station_mean (station_key r, station_rows d r)"
  then obtain r where r: "r \<in> set (rows d)"
    and s: "s = station_mean (station_key r, station_rows d r)" by blast
  from r have "(station_key r, station_rows d r) \<in> set (groupby station_key (rows d))"
    unfolding groupby_member station_rows_def by blast
  with s show "s \<in> set (station_averages d)"
    by (simp add: station_averages_def)
qed

lemma station_rows_nonempty: "r \<in> set (rows d) \<Longrightarrow> station_rows d r \<noteq> []"
  by (auto simp: station_rows_def filter_empty_conv)

lemma exceeding_station:
  assumes "r \<in> set (rows d)"
  shows "exceeding (Some t) (station_mean (station_key r, station_rows d r)) =
     (if t < mean (map rainfall_mm (station_rows d r)) then Some (alert_row t d r) else None)"
  using station_rows_nonempty [OF assms]
  by (simp add: exceeding_def station_mean_def series_mean_Some alert_row_def station_key_def)

lemma set_map_filter: "set (List.map_filter f xs) = {y. \<exists>x \<in> set xs. f x = Some y}"
  by (induction xs) (auto simp: map_filter_simps split: option.splits)

lemma distinct_map_filter:
  assumes "\<And>x y. f x = Some y \<Longrightarrow> k y = k' x" and "distinct (map k' xs)"
  shows "distinct (map k (List.map_filter f xs))"
  using assms(2)
proof (induction xs)
  case Nil
  show ?case by (simp add: map_filter_simps)
next
  case (Cons x xs)
  then have d: "distinct (map k (List.map_filter f xs))" and nx: "k' x \<notin> k' ` set xs"
    by simp_all
  show ?case
  proof (cases "f x")
    case None
    with d show ?thesis by (simp add: map_filter_simps)
  next
    case (Some y)
    have "k y \<notin> k ` set (List.map_filter f xs)"
    proof
      assume "k y \<in> k ` set (List.map_filter f xs)"
      then obtain z x' where "x' \<in> set xs" "f x' = Some z" "k z = k y"
        by (auto simp: set_map_filter)
      with assms(1) Some have "k' x' = k' x" by metis
      with \<open>x' \<in> set xs\<close> nx show False by (metis image_eqI)
    qed
    with d Some show ?thesis by (simp add: map_filter_simps)
  qed
qed

lemma distinct_map_sort_key: "distinct (map k (sort_key g xs)) = distinct (map k xs)"
  by (simp add: distinct_map)

lemma station_averages_distinct:
  "distinct (map (\<lambda>s. (avg_station_id s, avg_station_name s)) (station_averages d))"
proof -
  have "map (\<lambda>s. (avg_station_id s, avg_station_name s)) (station_averages d)
        = map fst (groupby station_key (rows d))"
    by (simp add: station_averages_def station_mean_def comp_def)
  then show ?thesis by (simp add: groupby_distinct)
qed

lemma exceeding_key:
  "exceeding thr s = Some a \<Longrightarrow>
     (alert_station_id a, alert_station_name a) = (avg_station_id s, avg_station_name s)"
  by (auto simp: exceeding_def split: option.splits if_splits)

lemma alert_areas_rows:
  assumes "rows d \<noteq> []"
  shows "fst (get_alert_areas cm cy d m) =
     sort_key (\<lambda>a. - excess_rainfall a)
       (List.map_filter (exceeding (Some (monthly_mean cm cy d * m))) (station_averages d))"
  using assms
  by (simp add: get_alert_areas_def frame_empty_def Let_def get_monthly_average_rows
      monthly_mean_def)

text \<open>
  C4. On an empty table \<open>get_alert_areas\<close> returns no alert and the threshold 0. On
  every other table, for every multiplier, the threshold is the monthly average times the
  multiplier; the alert rows are exactly the rows of the stations whose mean rainfall is
  strictly greater than the threshold, one row for each such station, each carrying the
  threshold and the excess of the mean over the threshold; and they are returned in
  descending order of the excess. With the multiplier 1.5 and the monthly average 2 the
  threshold is 3, and the station of mean 3.5 is flagged with the excess 0.5.
\<close>

theorem alert_areas_flag_exceeding_stations:
  "(rows d = [] \<longrightarrow> get_alert_areas cm cy d m = ([], Some 0))
   \<and> (rows d \<noteq> [] \<longrightarrow>
        snd (get_alert_areas cm cy d m) = Some (monthly_mean cm cy d * m)
        \<and> set (fst (get_alert_areas cm cy d m)) =
            {alert_row (monthly_mean cm cy d * m) d r | r.
               r \<in> set (rows d)
               \<and> monthly_mean cm cy d * m < mean (map rainfall_mm (station_rows d r))}
        \<and> distinct (map (\<lambda>a. (alert_station_id a, alert_station_name a))
              (fst (get_alert_areas cm cy d m)))
        \<and> sorted_wrt (\<lambda>a b. excess_rainfall b \<le> excess_rainfall a)
              (fst (get_alert_areas cm cy d m)))"
proof (intro conjI impI)
  assume "rows d = []"
  then show "get_alert_areas cm cy d m = ([], Some 0)"
    by (simp add: get_alert_areas_def frame_empty_def)
next
  assume ne: "rows d \<noteq> []"
  let ?t = "monthly_mean cm cy d * m"
  show "snd (get_alert_areas cm cy d m) = Some ?t"
    by (simp add: alert_threshold [OF ne] monthly_mean_def)
  show "set (fst (get_alert_areas cm cy d m)) =
            {alert_row ?t d r | r. r \<in> set (rows d) \<and> ?t < mean (map rainfall_mm (station_rows d r))}"
    (is "?L = ?R")
  proof
    show "?L \<subseteq> ?R"
    proof
      fix a assume "a \<in> ?L"
      then obtain s where "s \<in> set (station_averages d)" and a: "exceeding (Some ?t) s = Some a"
        by (auto simp: alert_areas_rows [OF ne] set_map_filter)
      then obtain r where r: "r \<in> set (rows d)"
        and "s = station_mean (station_key r, station_rows d r)"
        by (auto simp: station_averages_member)
      with a have "?t < mean (map rainfall_mm (station_rows d r))" "a = alert_row ?t d r"
        by (simp_all add: exceeding_station [OF r] split: if_splits)
      with r show "a \<in> ?R" by blast
    qed
    show "?R \<subseteq> ?L"
    proof
      fix a assume "a \<in> ?R"
      then obtain r where r: "r \<in> set (rows d)"
        and gt: "?t < mean (map rainfall_mm (station_rows d r))" and a: "a = alert_row ?t d r"
        by blast
      have "station_mean (station_key r, station_rows d r) \<in> set (station_averages d)"
        using r by (auto simp: station_averages_member)
      moreover have "exceeding (Some ?t) (station_mean (station_key r, station_rows d r)) = Some a"
        using gt a by (simp add: exceeding_station [OF r])
      ultimately show "a \<in> ?L"
        by (auto simp: alert_areas_rows [OF ne] set_map_filter)
    qed
  qed
  show "distinct (map (\<lambda>a. (alert_station_id a, alert_station_name a))
              (fst (get_alert_areas cm cy d m)))"
    unfolding alert_areas_rows [OF ne] distinct_map_sort_key
    by (rule distinct_map_filter [OF exceeding_key station_averages_distinct])
  have "sorted (map (\<lambda>a. - excess_rainfall a) (fst (get_alert_areas cm cy d m)))"
    unfolding alert_areas_rows [OF ne] by (rule sorted_sort_key)
  then show "sorted_wrt (\<lambda>a b. excess_rainfall b \<le> excess_rainfall a)
              (fst (get_alert_areas cm cy d m))"
    by (simp add: sorted_map)
qed

theorem alert_areas_flag_exceeding_stations_witness:
  "rows alert_table \<noteq> []
   \<and> get_alert_areas 1 2024 empty_frame (3 / 2) = ([], Some 0)
   \<and> monthly_mean 1 2024 alert_table = 2
   \<and> snd (get_alert_areas 1 2024 alert_table (3 / 2)) = Some 3
   \<and> fst (get_alert_areas 1 2024 alert_table (3 / 2)) =
       [\<lparr>alert_station_id = ''S1'', alert_station_name = ''Alpha'', alert_rainfall_mm = 7 / 2,
         alert_latitude = Some (13 / 10), alert_longitude = Some (519 / 5), threshold = 3,
         excess_rainfall = 1 / 2\<rparr>]"
proof -
  have e: "rows empty_frame = []" by (simp add: empty_frame_def)
  have ne: "rows alert_table \<noteq> []" by (simp add: alert_table_def)
  have mm: "monthly_mean 1 2024 alert_table = 2"
    by (simp add: monthly_mean_def month_rows_def mean_def alert_table_def reading_at_def)
  have al: "fst (get_alert_areas 1 2024 alert_table (3 / 2)) =
       [\<lparr>alert_station_id = ''S1'', alert_station_name = ''Alpha'', alert_rainfall_mm = 7 / 2,
         alert_latitude = Some (13 / 10), alert_longitude = Some (519 / 5), threshold = 3,
         excess_rainfall = 1 / 2\<rparr>]"
    by code_simp
  from alert_areas_flag_exceeding_stations [of empty_frame 1 2024 "3 / 2"]
    alert_areas_flag_exceeding_stations [of alert_table 1 2024 "3 / 2"] e ne mm al
  show ?thesis by simp
qed

subsection \<open>Hourly distribution\<close>

lemma sum_list_indicator:
  assumes "distinct ks" and "a \<in> set ks"
  shows "(\<Sum>k\<leftarrow>ks. if a = k then c else (0::real)) = c"
  using assms
proof (induction ks)
  case Nil
  then show ?case by simp
next
  case (Cons k ks)
  show ?case
  proof (cases "a = k")
    case True
    with Cons.prems have "a \<notin> set ks" by simp
    then have "(\<Sum>k\<leftarrow>ks. if a = k then c else (0::real)) = 0"
      by (induction ks) auto
    with True show ?thesis by simp
  next
    case False
    with Cons show ?thesis by simp
  qed
qed

lemma sum_list_by_key:
  assumes "distinct ks" and "key ` set xs \<subseteq> set ks"
  shows "(\<Sum>k\<leftarrow>ks. sum_list (map f (filter (\<lambda>x. key x = k) xs))) = (sum_list (map f xs) :: real)"
  using assms(2)
proof (induction xs)
  case Nil
  show ?case by simp
next
  case (Cons x xs)
  then have IH: "(\<Sum>k\<leftarrow>ks. sum_list (map f (filter (\<lambda>x. key x = k) xs))) = sum_list (map f xs)"
    and x: "key x \<in> set ks" by simp_all
  have "(\<Sum>k\<leftarrow>ks. sum_list (map f (filter (\<lambda>y. key y = k) (x # xs))))
        = (\<Sum>k\<leftarrow>ks. (if key x = k then f x else 0) + sum_list (map f (filter (\<lambda>y. key y = k) xs)))"
    by (intro arg_cong [where f = sum_list] map_cong) auto
  also have "\<dots> = (\<Sum>k\<leftarrow>ks. if key x = k then f x else 0)
                 + (\<Sum>k\<leftarrow>ks. sum_list (map f (filter (\<lambda>y. key y = k) xs)))"
    by (simp add: sum_list_addf)
  also have "\<dots> = f x + sum_list (map f xs)"
    by (simp add: sum_list_indicator [OF assms(1) x] IH)
  finally show ?case by simp
qed

lemma groupby_sum:
  "(\<Sum>g\<leftarrow>groupby key xs. sum_list (map f (snd g))) = (sum_list (map f xs) :: real)"
proof -
  have "(\<Sum>g\<leftarrow>groupby key xs. sum_list (map f (snd g)))
        = (\<Sum>k\<leftarrow>sort (remdups (map key xs)). sum_list (map f (filter (\<lambda>x. key x = k) xs)))"
    by (simp add: groupby_def comp_def)
  also have "\<dots> = sum_list (map f xs)"
    by (rule sum_list_by_key) simp_all
  finally show ?thesis .
qed

lemma hourly_distribution_rows:
  "get_hourly_distribution d = map hourly_row (groupby hour (rows d))"
proof (cases "rows d = []")
  case True
  then show ?thesis by (simp add: get_hourly_distribution_def frame_empty_def groupby_def)
next
  case False
  have eq: "map hour_of_day (map hourly_row (groupby hour (rows d))) = map fst (groupby hour (rows d))"
    by (simp add: hourly_row_def comp_def)
  have "sorted (map hour_of_day (map hourly_row (groupby hour (rows d))))"
    unfolding eq by (rule groupby_sorted)
  then have "sort_key hour_of_day (map hourly_row (groupby hour (rows d)))
             = map hourly_row (groupby hour (rows d))"
    by (rule sort_key_id_if_sorted)
  with False show ?thesis by (simp add: get_hourly_distribution_def frame_empty_def)
qed

lemma hourly_distribution_hours:
  "map hour_of_day (get_hourly_distribution d) = sort (remdups (map hour (rows d)))"
  by (simp add: hourly_distribution_rows hourly_row_def comp_def groupby_keys [symmetric])

lemma distinct_below_length:
  assumes "distinct hs" and "\<forall>h \<in> set hs. h < (n::nat)"
  shows "length hs \<le> n"
proof -
  have "set hs \<subseteq> {..<n}" using assms(2) by auto
  then have "card (set hs) \<le> card {..<n}" by (intro card_mono) simp_all
  with assms(1) show ?thesis by (simp add: distinct_card)
qed


lemma station_groups_keys:
  "map (\<lambda>a. (area_station_id a, area_station_name a)) (station_groups d)
   = map (\<lambda>k. (Some (fst k), snd k)) (sort (remdups (map station_key (rows d))))"
  by (simp add: station_groups_def station_area_def comp_def groupby_def)

lemma station_groups_distinct:
  "distinct (map (\<lambda>a. (area_station_id a, area_station_name a)) (station_groups d))"
  unfolding station_groups_keys
  by (simp add: distinct_map inj_on_def prod_eq_iff)

lemma nlargest_all: "int (length xs) \<le> n \<Longrightarrow> set (nlargest n xs) = set xs"
  by (simp add: nlargest_def)

lemma nsmallest_all: "int (length xs) \<le> n \<Longrightarrow> set (nsmallest n xs) = set xs"
  by (simp add: nsmallest_def)

lemma nlargest_distinct: "distinct xs \<Longrightarrow> distinct (nlargest n xs)"
  by (simp add: nlargest_def)

lemma nsmallest_distinct: "distinct xs \<Longrightarrow> distinct (nsmallest n xs)"
  by (simp add: nsmallest_def)

lemma top_rainfall_areas_by_station:
  "fst (get_top_rainfall_areas d n False) = nlargest n (station_groups d)"
  by (simp add: get_top_rainfall_areas_def frame_empty_def station_groups_def groupby_def nlargest_def)

lemma lowest_rainfall_areas_by_station:
  "get_lowest_rainfall_areas d n = nsmallest n (station_groups d)"
  by (simp add: get_lowest_rainfall_areas_def frame_empty_def station_groups_def groupby_def nsmallest_def)

lemma station_groups_member:
  "r \<in> set (rows d) \<Longrightarrow>
     \<exists>a \<in> set (station_groups d). area_station_id a = Some (station_id r)
        \<and> area_station_name a = station_name r"
proof -
  assume "r \<in> set (rows d)"
  then have "(station_key r, filter (\<lambda>y. station_key y = station_key r) (rows d))
        \<in> set (groupby station_key (rows d))"
    unfolding groupby_member by blast
  then have "station_area (station_key r, filter (\<lambda>y. station_key y = station_key r) (rows d))
        \<in> set (station_groups d)"
    by (simp add: station_groups_def)
  then show ?thesis
    by (rule rev_bexI) (simp add: station_area_def station_key_def)
qed

text \<open>
  C9. When no two station groups have the same total rainfall and \<open>n\<close> is at least the
  number of station groups, the top-\<open>n\<close> ranking by station and the bottom-\<open>n\<close>
  ranking together hold exactly the station groups of the table, and every station of the
  table has exactly one row in their union.
\<close>

theorem rankings_cover_every_station:
  assumes "distinct (map total_rainfall (station_groups d))"
    and "int (length (station_groups d)) \<le> n"
  shows "set (fst (get_top_rainfall_areas d n False)) \<union> set (get_lowest_rainfall_areas d n)
           = set (station_groups d)
     \<and> distinct (map (\<lambda>a. (area_station_id a, area_station_name a)) (station_groups d))
     \<and> distinct (fst (get_top_rainfall_areas d n False))
     \<and> distinct (get_lowest_rainfall_areas d n)
     \<and> (\<forall>r \<in> set (rows d).
           \<exists>!a. a \<in> set (fst (get_top_rainfall_areas d n False)) \<union> set (get_lowest_rainfall_areas d n)
                \<and> area_station_id a = Some (station_id r) \<and> area_station_name a = station_name r)"
proof -
  let ?k = "\<lambda>a. (area_station_id a, area_station_name a)"
  have dk: "distinct (map ?k (station_groups d))" by (rule station_groups_distinct)
  then have dg: "distinct (station_groups d)" by (simp add: distinct_map)
  have u: "set (fst (get_top_rainfall_areas d n False)) \<union> set (get_lowest_rainfall_areas d n)
           = set (station_groups d)"
    by (simp add: top_rainfall_areas_by_station lowest_rainfall_areas_by_station
        nlargest_all [OF assms(2)] nsmallest_all [OF assms(2)])
  have once: "\<forall>r \<in> set (rows d).
           \<exists>!a. a \<in> set (fst (get_top_rainfall_areas d n False)) \<union> set (get_lowest_rainfall_areas d n)
                \<and> area_station_id a = Some (station_id r) \<and> area_station_name a = station_name r"
  proof
    fix r assume "r \<in> set (rows d)"
    from station_groups_member [OF this] obtain a where a: "a \<in> set (station_groups d)"
      "area_station_id a = Some (station_id r)" "area_station_name a = station_name r" by blast
    show "\<exists>!a. a \<in> set (fst (get_top_rainfall_areas d n False)) \<union> set (get_lowest_rainfall_areas d n)
                \<and> area_station_id a = Some (station_id r) \<and> area_station_name a = station_name r"
      unfolding u
    proof (rule ex1I [of _ a])
      show "a \<in> set (station_groups d) \<and> area_station_id a = Some (station_id r)
            \<and> area_station_name a = station_name r"
        using a by simp
    next
      fix b assume b: "b \<in> set (station_groups d) \<and> area_station_id b = Some (station_id r)
            \<and> area_station_name b = station_name r"
      with a have "?k b = ?k a" by simp
      with dk a(1) b show "b = a"
        by (meson distinct_map inj_onD)
    qed
  qed
  from u dk dg once show ?thesis
    by (simp add: top_rainfall_areas_by_station lowest_rainfall_areas_by_station
        nlargest_distinct nsmallest_distinct)
qed


theorem rankings_cover_every_station_witness:
  "distinct (map total_rainfall (station_groups alert_table))
   \<and> int (length (station_groups alert_table)) \<le> 2
   \<and> map area_station_name (fst (get_top_rainfall_areas alert_table 2 False)) = [''Alpha'', ''Beta'']
   \<and> map area_station_name (get_lowest_rainfall_areas alert_table 2) = [''Beta'', ''Alpha'']
   \<and> set (fst (get_top_rainfall_areas alert_table 2 False)) \<union> set (get_lowest_rainfall_areas alert_table 2)
       = set (station_groups alert_table)"
proof -
  have h1: "distinct (map total_rainfall (station_groups alert_table))"
    by code_simp
  have h2: "int (length (station_groups alert_table)) \<le> 2"
    by code_simp
  have t: "map area_station_name (fst (get_top_rainfall_areas alert_table 2 False)) = [''Alpha'', ''Beta'']"
    by code_simp
  have l: "map area_station_name (get_lowest_rainfall_areas alert_table 2) = [''Beta'', ''Alpha'']"
    by code_simp
  from rankings_cover_every_station [OF h1 h2] h1 h2 t l
  show ?thesis by blast
qed

subsection \<open>The table of the analyzer and the table of its caller\<close>

lemma top_rainfall_areas_rows: "rows (snd (get_top_rainfall_areas d n g)) = rows d"
  by (simp add: get_top_rainfall_areas_def Let_def)

lemma top_rainfall_areas_plain: "snd (get_top_rainfall_areas d n False) = d"
  by (simp add: get_top_rainfall_areas_def)

lemma top_rainfall_areas_columns:
  "rows d \<noteq> [] \<Longrightarrow>
     lat_group (snd (get_top_rainfall_areas d n True)) = Some (map (\<lambda>r. round2 (latitude r)) (rows d))
     \<and> lon_group (snd (get_top_rainfall_areas d n True)) = Some (map (\<lambda>r. round2 (longitude r)) (rows d))"
  by (simp add: get_top_rainfall_areas_def frame_empty_def Let_def)

lemma results_depend_on_rows:
  assumes "rows d = rows d'"
  shows "fst (get_top_rainfall_areas d n g) = fst (get_top_rainfall_areas d' n g)"
    and "get_lowest_rainfall_areas d n = get_lowest_rainfall_areas d' n"
    and "get_hourly_distribution d = get_hourly_distribution d'"
    and "get_monthly_average cm cy d = get_monthly_average cm cy d'"
    and "get_alert_areas cm cy d m = get_alert_areas cm cy d' m"
    and "generate_summary_stats d = generate_summary_stats d'"
  using assms
  by (simp_all add: get_top_rainfall_areas_def get_lowest_rainfall_areas_def
      get_hourly_distribution_def get_monthly_average_def get_alert_areas_def
      generate_summary_stats_def frame_empty_def station_groups_def station_averages_def Let_def
      split: list.splits)

text \<open>
  C8 (as amended). The analyzer works on the DataFrame that \<open>__init__\<close> allocated, so
  no operation changes the table of the caller, and no operation changes a row of the
  analyzer's table. \<open>get_top_rainfall_areas\<close> with \<open>group_nearby\<close> on a table that is
  not empty stores the columns \<open>lat_group\<close> and \<open>lon_group\<close> in the analyzer's table,
  where later calls on the same analyzer find them; without \<open>group_nearby\<close> it leaves
  the heap as it is. The stored columns change the result of no later operation.
\<close>

theorem grouping_columns_stay_in_engine_table:
  assumes "caller < length h"
    and "RainfallAnalyzer h caller = (self, h1)"
    and "top_rainfall_areas self n group_nearby h1 = (ranking, h2)"
  shows "h2 ! caller = h ! caller
     \<and> rows (h2 ! data self) = rows (h1 ! data self)
     \<and> (\<not> group_nearby \<longrightarrow> h2 = h1)
     \<and> (group_nearby \<and> rows (h ! caller) \<noteq> [] \<longrightarrow>
          lat_group (h2 ! data self) = Some (map (\<lambda>r. round2 (latitude r)) (rows (h ! caller)))
          \<and> lon_group (h2 ! data self) = Some (map (\<lambda>r. round2 (longitude r)) (rows (h ! caller))))
     \<and> fst (get_top_rainfall_areas (h2 ! data self) k g) = fst (get_top_rainfall_areas (h1 ! data self) k g)
     \<and> get_lowest_rainfall_areas (h2 ! data self) k = get_lowest_rainfall_areas (h1 ! data self) k
     \<and> get_hourly_distribution (h2 ! data self) = get_hourly_distribution (h1 ! data self)
     \<and> get_monthly_average cm cy (h2 ! data self) = get_monthly_average cm cy (h1 ! data self)
     \<and> get_alert_areas cm cy (h2 ! data self) m = get_alert_areas cm cy (h1 ! data self) m
     \<and> generate_summary_stats (h2 ! data self) = generate_summary_stats (h1 ! data self)"
proof -
  define d where "d = (if \<not> frame_empty (h ! caller) then h ! caller else empty_frame)"
  from assms(2) have self: "data self = length h" and h1: "h1 = h @ [d]"
    by (auto simp: RainfallAnalyzer_def d_def)
  have d1: "h1 ! data self = d" by (simp add: self h1)
  from assms(3) have h2: "h2 = h1[data self := snd (get_top_rainfall_areas d n group_nearby)]"
    by (auto simp: top_rainfall_areas_def d1 split: prod.splits)
  have d2: "h2 ! data self = snd (get_top_rainfall_areas d n group_nearby)"
    by (simp add: h2 self h1)
  have c: "h2 ! caller = h ! caller"
    using assms(1) by (simp add: h2 self h1 nth_append)
  have r: "rows (h2 ! data self) = rows (h1 ! data self)"
    by (simp add: d1 d2 top_rainfall_areas_rows)
  have p: "\<not> group_nearby \<longrightarrow> h2 = h1"
    by (simp add: h2 top_rainfall_areas_plain self h1)
  have g: "group_nearby \<and> rows (h ! caller) \<noteq> [] \<longrightarrow>
          lat_group (h2 ! data self) = Some (map (\<lambda>r. round2 (latitude r)) (rows (h ! caller)))
          \<and> lon_group (h2 ! data self) = Some (map (\<lambda>r. round2 (longitude r)) (rows (h ! caller)))"
  proof
    assume a: "group_nearby \<and> rows (h ! caller) \<noteq> []"
    then have "d = h ! caller" by (simp add: d_def frame_empty_def)
    with a top_rainfall_areas_columns [of d n] show
      "lat_group (h2 ! data self) = Some (map (\<lambda>r. round2 (latitude r)) (rows (h ! caller)))
       \<and> lon_group (h2 ! data self) = Some (map (\<lambda>r. round2 (longitude r)) (rows (h ! caller)))"
      by (simp add: d2)
  qed
  from c r p g results_depend_on_rows [OF r] show ?thesis by simp
qed

theorem grouping_columns_stay_in_engine_table_witness:
  "(0::nat) < length [example_table]
   \<and> RainfallAnalyzer [example_table] 0 = (\<lparr>data = 1\<rparr>, [example_table, example_table])
   \<and> snd (top_rainfall_areas \<lparr>data = 1\<rparr> 10 True [example_table, example_table]) ! 0
       = example_table
   \<and> rows (snd (top_rainfall_areas \<lparr>data = 1\<rparr> 10 True [example_table, example_table]) ! 1)
       = rows example_table
   \<and> get_lowest_rainfall_areas
         (snd (top_rainfall_areas \<lparr>data = 1\<rparr> 10 True [example_table, example_table]) ! 1) 10
       = get_lowest_rainfall_areas example_table 10"
proof -
  have h1: "(0::nat) < length [example_table]" by simp
  have h2: "RainfallAnalyzer [example_table] 0 = (\<lparr>data = 1\<rparr>, [example_table, example_table])"
    by (simp add: RainfallAnalyzer_def frame_empty_def example_table_def)
  have h3: "top_rainfall_areas \<lparr>data = 1\<rparr> 10 True [example_table, example_table]
     = (fst (top_rainfall_areas \<lparr>data = 1\<rparr> 10 True [example_table, example_table]),
        snd (top_rainfall_areas \<lparr>data = 1\<rparr> 10 True [example_table, example_table]))"
    by simp
  from grouping_columns_stay_in_engine_table [OF h1 h2 h3, of 10 False 1 2024 "3 / 2"] h1 h2
  show ?thesis by simp
qed

text \<open>
  C8 (as stated) fails: after \<open>get_top_rainfall_areas\<close> with \<open>group_nearby\<close>, the table
  that the next call on the same analyzer reads has the column \<open>lat_group\<close>, which the
  table given to the analyzer does not have.
\<close>

theorem grouping_columns_leak_into_engine_table:
  "RainfallAnalyzer [example_table] 0 = (\<lparr>data = 1\<rparr>, [example_table, example_table])
   \<and> lat_group example_table = None
   \<and> lat_group (snd (top_rainfall_areas \<lparr>data = 1\<rparr> 10 True [example_table, example_table]) ! 1)
       = Some [13 / 10, 27 / 20, 13 / 10, 27 / 20, 13 / 10, 27 / 20]"
  by code_simp

section \<open>The analyzer on the table of \<open>process_readings\<close>\<close>

lemma traverse_all_Inr:
  "(\<And>x. x \<in> set xs \<Longrightarrow> f x = Inr (g x)) \<Longrightarrow> traverse f xs = Inr (map g xs)"
  by (induction xs) simp_all

lemma slice_numbers_typed:
  "list_all (\<lambda>c. cell_number c \<noteq> None) cells
   \<Longrightarrow> slice_numbers lib cells = Inr (List.map_filter cell_number cells)"
  by (simp add: slice_numbers_def)

lemma group_numbers_typed:
  assumes "\<And>g r. g \<in> set groups \<Longrightarrow> r \<in> set (snd g) \<Longrightarrow> cell_number (column r) \<noteq> None"
  shows "group_numbers lib column groups = Inr (map (\<lambda>g. column_numbers column (snd g)) groups)"
  unfolding group_numbers_def column_numbers_def
  by (rule traverse_all_Inr) (rule slice_numbers_typed, use assms in \<open>auto simp: list_all_iff\<close>)

lemma zip3_map:
  "map (\<lambda>(g, x, y, z). h g x y z) (zip gs (zip (map a gs) (zip (map b gs) (map c gs))))
     = map (\<lambda>g. h g (a g) (b g) (c g)) gs"
  by (induction gs) simp_all

lemma aggregate_typed:
  assumes "\<And>g r. g \<in> set groups \<Longrightarrow> r \<in> set (snd g) \<Longrightarrow> typed_row r"
  shows "aggregate lib row_of groups =
     Inr (map (\<lambda>g. row_of g (column_numbers rainfall_mm (snd g)) (column_numbers latitude (snd g))
                      (column_numbers longitude (snd g))) groups)"
proof -
  have r: "group_numbers lib rainfall_mm groups = Inr (map (\<lambda>g. column_numbers rainfall_mm (snd g)) groups)"
    by (rule group_numbers_typed) (use assms in \<open>auto simp: typed_row_def\<close>)
  have a: "group_numbers lib latitude groups = Inr (map (\<lambda>g. column_numbers latitude (snd g)) groups)"
    by (rule group_numbers_typed) (use assms in \<open>auto simp: typed_row_def\<close>)
  have b: "group_numbers lib longitude groups = Inr (map (\<lambda>g. column_numbers longitude (snd g)) groups)"
    by (rule group_numbers_typed) (use assms in \<open>auto simp: typed_row_def\<close>)
  show ?thesis
    unfolding aggregate_def r a b by (simp add: and_then_def zip3_map)
qed

lemma group_keys_strings:
  "list_all (\<lambda>c. cell_string c \<noteq> None) cells
   \<Longrightarrow> group_keys lib cells = Inr (map JStr (sort (remdups (List.map_filter cell_string cells))))"
  by (simp add: group_keys_def)

lemma groupby_station_typed:
  assumes "typed_table tbl"
  shows "\<exists>groups. groupby_station lib tbl = Inr groups
           \<and> (\<forall>g \<in> set groups. set (snd g) \<subseteq> set tbl)"
proof -
  have i: "list_all (\<lambda>c. cell_string c \<noteq> None) (map station_id tbl)"
    and n: "list_all (\<lambda>c. cell_string c \<noteq> None) (map station_name tbl)"
    using assms by (auto simp: typed_table_def typed_row_def list_all_iff)
  show ?thesis
    unfolding groupby_station_def group_keys_strings [OF i] group_keys_strings [OF n]
    by (auto simp: and_then_def)
qed

lemma station_aggregate_typed:
  assumes "typed_table tbl"
  shows "\<exists>groups. groupby_station lib tbl = Inr groups
     \<and> aggregate lib row_of groups =
         Inr (map (\<lambda>g. row_of g (column_numbers rainfall_mm (snd g)) (column_numbers latitude (snd g))
                      (column_numbers longitude (snd g))) groups)"
proof -
  from groupby_station_typed [OF assms, of lib] obtain groups where
    g: "groupby_station lib tbl = Inr groups" and s: "\<forall>g \<in> set groups. set (snd g) \<subseteq> set tbl"
    by blast
  have "\<And>g r. g \<in> set groups \<Longrightarrow> r \<in> set (snd g) \<Longrightarrow> typed_row r"
    using s assms by (auto simp: typed_table_def list_all_iff)
  then have "aggregate lib row_of groups =
         Inr (map (\<lambda>g. row_of g (column_numbers rainfall_mm (snd g)) (column_numbers latitude (snd g))
                      (column_numbers longitude (snd g))) groups)"
    by (rule aggregate_typed)
  with g show ?thesis by blast
qed

lemma station_groups_df_typed:
  assumes "typed_table tbl"
  shows "\<exists>grouped. station_groups_df lib tbl = Inr grouped"
  using station_aggregate_typed [OF assms, of lib ranked_station]
  by (auto simp: station_groups_df_def and_then_def)

lemma rounded_typed:
  "list_all (\<lambda>c. cell_number c \<noteq> None) cells
   \<Longrightarrow> rounded lib cells = Inr (map (\<lambda>c. map_option round2 (cell_number c)) cells)"
  by (simp add: rounded_def)

lemma set_map_filter_zip:
  "set (List.map_filter (\<lambda>(r, a, b). case (a, b) of (Some x, Some y) \<Rightarrow> Some ((x, y), r) | _ \<Rightarrow> None)
          (zip tbl ab)) \<subseteq> {p. snd p \<in> set tbl}"
proof (induction tbl arbitrary: ab)
  case Nil
  show ?case by (simp add: map_filter_simps)
next
  case (Cons r tbl)
  show ?case
  proof (cases ab)
    case Nil
    then show ?thesis by (simp add: map_filter_simps)
  next
    case (Cons c cs)
    with Cons.IH [of cs] show ?thesis
      by (auto simp: map_filter_simps split: option.splits prod.splits)
  qed
qed

lemma groupby_nearby_rows:
  assumes "g \<in> set (groupby_nearby tbl a b)"
  shows "set (snd g) \<subseteq> set tbl"
  using assms set_map_filter_zip [of tbl "zip a b"]
  by (auto simp: groupby_nearby_def groupby_def)

lemma top_rainfall_areas_df_typed:
  assumes "typed_table tbl"
  shows "\<exists>ranking. get_top_rainfall_areas_df lib tbl n g = Inr ranking"
proof (cases g)
  case False
  with station_groups_df_typed [OF assms, of lib] show ?thesis
    by (auto simp: get_top_rainfall_areas_df_def and_then_def)
next
  case True
  have a: "list_all (\<lambda>c. cell_number c \<noteq> None) (map latitude tbl)"
    and b: "list_all (\<lambda>c. cell_number c \<noteq> None) (map longitude tbl)"
    using assms by (auto simp: typed_table_def typed_row_def list_all_iff)
  have "\<And>k r. k \<in> set (groupby_nearby tbl x y) \<Longrightarrow> r \<in> set (snd k) \<Longrightarrow> typed_row r" for x y
    using groupby_nearby_rows assms by (fastforce simp: typed_table_def list_all_iff)
  then have "\<exists>grouped. aggregate lib ranked_nearby (groupby_nearby tbl x y) = Inr grouped" for x y
    using aggregate_typed [of "groupby_nearby tbl x y" lib ranked_nearby] by blast
  then obtain grouped where
    "aggregate lib ranked_nearby
       (groupby_nearby tbl (map (\<lambda>c. map_option round2 (cell_number c)) (map latitude tbl))
          (map (\<lambda>c. map_option round2 (cell_number c)) (map longitude tbl))) = Inr grouped"
    by blast
  then show ?thesis
    unfolding get_top_rainfall_areas_df_def rounded_typed [OF a] rounded_typed [OF b]
    using True by (simp add: and_then_def)
qed

lemma lowest_rainfall_areas_df_typed:
  assumes "typed_table tbl"
  shows "\<exists>ranking. get_lowest_rainfall_areas_df lib tbl n = Inr ranking"
  using station_groups_df_typed [OF assms, of lib]
  by (auto simp: get_lowest_rainfall_areas_df_def and_then_def)

lemma hourly_numbers:
  assumes "list_all (\<lambda>r. cell_number (rainfall_mm r) \<noteq> None) tbl"
  shows "group_numbers lib rainfall_mm (groupby_hour tbl)
         = Inr (map (\<lambda>g. column_numbers rainfall_mm (snd g)) (groupby_hour tbl))"
  by (rule group_numbers_typed) (use assms in \<open>auto simp: groupby_hour_def list_all_iff\<close>)

lemma zip_map_same: "map (\<lambda>(g, x). h g x) (zip gs (map a gs)) = map (\<lambda>g. h g (a g)) gs"
  by (induction gs) simp_all

lemma hourly_distribution_df_rows:
  assumes "list_all (\<lambda>r. cell_number (rainfall_mm r) \<noteq> None) tbl"
  shows "get_hourly_distribution_df lib tbl
         = Inr (map (\<lambda>g. hourly_of g (column_numbers rainfall_mm (snd g))) (groupby_hour tbl))"
proof (cases "tbl = []")
  case True
  then show ?thesis
    by (simp add: get_hourly_distribution_df_def groupby_hour_def map_filter_simps)
next
  case False
  let ?hd = "map (\<lambda>g. hourly_of g (column_numbers rainfall_mm (snd g))) (groupby_hour tbl)"
  have eq: "map hour_of_day ?hd = sort (remdups (List.map_filter hour tbl))"
    by (simp add: hourly_of_def comp_def groupby_hour_def)
  have "sorted (map hour_of_day ?hd)" unfolding eq by simp
  then have "sort_key hour_of_day ?hd = ?hd" by (rule sort_key_id_if_sorted)
  with False show ?thesis
    by (simp add: get_hourly_distribution_df_def hourly_numbers [OF assms] and_then_def zip_map_same)
qed

lemma monthly_average_df_typed:
  assumes "list_all (\<lambda>r. cell_number (rainfall_mm r) \<noteq> None) tbl"
  shows "\<exists>avg. get_monthly_average_df lib cm cy tbl = Inr avg"
proof -
  have sub: "list_all (\<lambda>c. cell_number c \<noteq> None) (map rainfall_mm (filter P tbl))" for P
    using assms by (auto simp: list_all_iff)
  have all: "list_all (\<lambda>c. cell_number c \<noteq> None) (map rainfall_mm tbl)"
    using assms by (simp add: list_all_iff)
  show ?thesis
    unfolding get_monthly_average_df_def Let_def mask_select slice_numbers_typed [OF sub]
        slice_numbers_typed [OF all]
    by (simp add: and_then_def)
qed

lemma alert_areas_df_typed:
  assumes "typed_table tbl"
  shows "\<exists>alerts thr. get_alert_areas_df lib cm cy tbl m = Inr (alerts, thr)"
proof -
  have r: "list_all (\<lambda>r. cell_number (rainfall_mm r) \<noteq> None) tbl"
    using assms by (simp add: typed_table_def typed_row_def list_all_iff)
  from monthly_average_df_typed [OF r, of lib cm cy] obtain avg where
    avg: "get_monthly_average_df lib cm cy tbl = Inr avg" by blast
  from station_aggregate_typed [OF assms, of lib station_mean_of] obtain groups means where
    g: "groupby_station lib tbl = Inr groups" and a: "aggregate lib station_mean_of groups = Inr means"
    by blast
  show ?thesis
    by (simp add: get_alert_areas_df_def avg g a and_then_def Let_def)
qed

lemma summary_stats_df_typed:
  assumes "typed_table tbl"
  shows "\<exists>stats. generate_summary_stats_df lib tbl = Inr stats"
proof -
  have i: "list_all (\<lambda>c. cell_string c \<noteq> None) (map station_id tbl)"
    and r: "list_all (\<lambda>c. cell_number c \<noteq> None) (map rainfall_mm tbl)"
    using assms by (auto simp: typed_table_def typed_row_def list_all_iff)
  show ?thesis
    by (simp add: generate_summary_stats_df_def group_keys_strings [OF i] slice_numbers_typed [OF r]
        and_then_def Let_def)
qed

text \<open>
  C3 (as amended). On an empty table every operation of the analyzer returns its empty or
  neutral result: no ranking, no hourly row, monthly average 0, no alert with threshold 0,
  no summary. On a table whose station identifiers and names are strings and whose
  coordinates and rainfall values are numbers (zeros among them; timestamps and hours may
  be missing) every operation returns a result and none raises, whatever pandas does with
  other cells.
\<close>

theorem aggregations_return_on_typed_tables:
  assumes "typed_table tbl"
  shows "(\<exists>ranking. get_top_rainfall_areas_df lib tbl n g = Inr ranking)
     \<and> (\<exists>ranking. get_lowest_rainfall_areas_df lib tbl n = Inr ranking)
     \<and> (\<exists>hourly. get_hourly_distribution_df lib tbl = Inr hourly)
     \<and> (\<exists>avg. get_monthly_average_df lib cm cy tbl = Inr avg)
     \<and> (\<exists>alerts thr. get_alert_areas_df lib cm cy tbl m = Inr (alerts, thr))
     \<and> (\<exists>stats. generate_summary_stats_df lib tbl = Inr stats)
     \<and> (tbl = [] \<longrightarrow>
           get_top_rainfall_areas_df lib tbl n g = Inr []
           \<and> get_lowest_rainfall_areas_df lib tbl n = Inr []
           \<and> get_hourly_distribution_df lib tbl = Inr []
           \<and> get_monthly_average_df lib cm cy tbl = Inr (Some 0)
           \<and> get_alert_areas_df lib cm cy tbl m = Inr ([], Some 0)
           \<and> generate_summary_stats_df lib tbl = Inr None)"
proof (intro conjI impI)
  show "\<exists>ranking. get_top_rainfall_areas_df lib tbl n g = Inr ranking"
    using assms by (rule top_rainfall_areas_df_typed)
  show "\<exists>ranking. get_lowest_rainfall_areas_df lib tbl n = Inr ranking"
    using assms by (rule lowest_rainfall_areas_df_typed)
  have r: "list_all (\<lambda>r. cell_number (rainfall_mm r) \<noteq> None) tbl"
    using assms by (simp add: typed_table_def typed_row_def list_all_iff)
  show "\<exists>hourly. get_hourly_distribution_df lib tbl = Inr hourly"
    by (simp add: hourly_distribution_df_rows [OF r])
  show "\<exists>avg. get_monthly_average_df lib cm cy tbl = Inr avg"
    using r by (rule monthly_average_df_typed)
  show "\<exists>alerts thr. get_alert_areas_df lib cm cy tbl m = Inr (alerts, thr)"
    using assms by (rule alert_areas_df_typed)
  show "\<exists>stats. generate_summary_stats_df lib tbl = Inr stats"
    using assms by (rule summary_stats_df_typed)
next
  assume e: "tbl = []"
  show "get_top_rainfall_areas_df lib tbl n g = Inr []"
    using e by (simp add: get_top_rainfall_areas_df_def)
  show "get_lowest_rainfall_areas_df lib tbl n = Inr []"
    using e by (simp add: get_lowest_rainfall_areas_df_def)
  show "get_hourly_distribution_df lib tbl = Inr []"
    using e by (simp add: get_hourly_distribution_df_def)
  show "get_monthly_average_df lib cm cy tbl = Inr (Some 0)"
    using e by (simp add: get_monthly_average_df_def)
  show "get_alert_areas_df lib cm cy tbl m = Inr ([], Some 0)"
    using e by (simp add: get_alert_areas_df_def)
  show "generate_summary_stats_df lib tbl = Inr None"
    using e by (simp add: generate_summary_stats_df_def)
qed

theorem aggregations_return_on_typed_tables_witness:
  "typed_table two_buckets_table \<and> typed_table []
   \<and> (\<forall>lib.
         (\<exists>ranking. get_top_rainfall_areas_df lib two_buckets_table 10 True = Inr ranking)
         \<and> (\<exists>ranking. get_lowest_rainfall_areas_df lib two_buckets_table 10 = Inr ranking)
         \<and> (\<exists>hourly. get_hourly_distribution_df lib two_buckets_table = Inr hourly)
         \<and> get_monthly_average_df lib 1 2024 two_buckets_table = Inr (Some (5 / 2))
         \<and> (\<exists>alerts thr. get_alert_areas_df lib 1 2024 two_buckets_table (3 / 2) = Inr (alerts, thr))
         \<and> (\<exists>stats. generate_summary_stats_df lib two_buckets_table = Inr stats)
         \<and> get_top_rainfall_areas_df lib [] 10 True = Inr []
         \<and> get_lowest_rainfall_areas_df lib [] 10 = Inr []
         \<and> get_hourly_distribution_df lib [] = Inr []
         \<and> get_monthly_average_df lib 1 2024 [] = Inr (Some 0)
         \<and> get_alert_areas_df lib 1 2024 [] (3 / 2) = Inr ([], Some 0)
         \<and> generate_summary_stats_df lib [] = Inr None)"
proof -
  have t: "typed_table two_buckets_table"
    by (simp add: typed_table_def typed_row_def two_buckets_table_def)
  have e: "typed_table []" by (simp add: typed_table_def)
  have m: "get_monthly_average_df lib 1 2024 two_buckets_table = Inr (Some (5 / 2))" for lib
    by (simp add: get_monthly_average_df_def two_buckets_table_def slice_numbers_def
        map_filter_simps and_then_def series_mean_def)
  show ?thesis
    using aggregations_return_on_typed_tables [OF t, of _ 10 True 1 2024 "3 / 2"]
      aggregations_return_on_typed_tables [OF e, of _ 10 True 1 2024 "3 / 2"] t e m
    by simp
qed

text \<open>
  C3 (as stated) fails: the analyzer receives the table of \<open>process_readings\<close> as it is,
  and \<open>process_readings\<close> copies a rainfall value that is a string into the table. On
  that table the summary statistics, the monthly average and the alert detection raise
  \<open>TypeError\<close>, whatever pandas does with the cells left to it.
\<close>

theorem aggregations_raise_on_string_rainfall:
  "process_readings example_conv example_fmt Map.empty payload_wet = Inr wet_table
   \<and> (\<forall>lib. generate_summary_stats_df lib wet_table = Inl TypeError
          \<and> get_monthly_average_df lib 1 2024 wet_table = Inl TypeError
          \<and> get_alert_areas_df lib 1 2024 wet_table (3 / 2) = Inl TypeError)"
proof (intro conjI allI)
  show "process_readings example_conv example_fmt Map.empty payload_wet = Inr wet_table"
    by (simp add: process_readings_def payload_wet_def data_section_def and_then_def
      py_get_def bucket_rows_def point_row_def to_datetime_def station_label_def example_conv_def
      datetime_column_def with_hour_and_date_def wet_table_def)
  fix lib
  have s: "slice_numbers lib [JStr ''wet''] = Inl TypeError"
    by (simp add: slice_numbers_def)
  show "generate_summary_stats_df lib wet_table = Inl TypeError"
    by (simp add: generate_summary_stats_df_def wet_table_def group_keys_def and_then_def s)
  show m: "get_monthly_average_df lib 1 2024 wet_table = Inl TypeError"
    by (simp add: get_monthly_average_df_def wet_table_def and_then_def s)
  show "get_alert_areas_df lib 1 2024 wet_table (3 / 2) = Inl TypeError"
    unfolding get_alert_areas_df_def m by (simp add: wet_table_def and_then_def)
qed

end
